theory Spec2Isabelle
  imports Complex_Main "HOL-Library.Multiset"
begin

section \<open>Data model\<close>

text \<open>
  The notebook works on numpy arrays of floats. A vector is a list of reals and a
  two-dimensional array is a list of rows; floating point rounding is not modelled, all
  arithmetic is exact. Class labels in the target array are the integers 0, 1, 2. The
  sizes and the number of components that \<open>Wine\<close> is called with are Python integers.
\<close>

type_synonym vec = "real list"
type_synonym matrix = "vec list"

datatype error = ValueError | KeyError

subsection \<open>numpy indexing\<close>

text \<open>
  A bound of a Python slice: a negative bound counts from the end, and every bound is
  clipped to the length, so a slice never raises.
\<close>

definition py_index :: "nat \<Rightarrow> int \<Rightarrow> nat" where
  "py_index len i = (if i < 0 then nat (max (int len + i) 0) else min (nat i) len)"

definition py_slice :: "int \<Rightarrow> int \<Rightarrow> 'a list \<Rightarrow> 'a list" where
  "py_slice lo hi xs =
     (let a = py_index (length xs) lo; b = py_index (length xs) hi
      in take (b - a) (drop a xs))"

text \<open>
  \<^verbatim>\<open>X[labels == k, :]\<close>: the rows of \<open>X\<close> whose label is \<open>k\<close>, in order. numpy raises
  when the mask and the array differ in length; in \<open>Wine\<close> both come from the same split
  and have the same length.
\<close>

definition mask_rows :: "matrix \<Rightarrow> nat list \<Rightarrow> nat \<Rightarrow> matrix" where
  "mask_rows X labels k = map fst (filter (\<lambda>(r, l). l = k) (zip X labels))"

definition n_features :: "matrix \<Rightarrow> nat" where
  "n_features X = (case X of [] \<Rightarrow> 0 | r # _ \<Rightarrow> length r)"

definition column :: "matrix \<Rightarrow> nat \<Rightarrow> real list" where
  "column X j = map (\<lambda>r. r ! j) X"

text \<open>A numpy array is rectangular: every row has the same number \<open>d\<close> of columns.\<close>

definition rect :: "matrix \<Rightarrow> nat \<Rightarrow> bool" where
  "rect X d = (\<forall>r\<in>set X. length r = d)"

section \<open>The library the notebook calls\<close>

text \<open>
  scikit-learn, numpy and qiskit are not part of the repository. The two scalers are
  small closed formulas and are written out as scikit-learn documents them; everything
  else the notebook calls is a field of the record \<open>library\<close>: the bundled data set,
  the random generator (a state of type \<open>'g\<close>), the fit of the principal component
  analysis and the entry point of the quantum algorithm. The fit of the principal
  component analysis is a function of its input: on arrays of at most 500 rows and columns
  the library uses its exact solver, which draws no random numbers. A fitted analysis
  transforms row by row.

  The scalers raise on an array without rows. \<open>Wine\<close> never passes one: a split that
  succeeds leaves at least one row on either side. The standard scaler also raises on an
  array without columns, which the wine data, with its 13 features, is not.
\<close>

subsection \<open>StandardScaler\<close>

definition mean :: "real list \<Rightarrow> real" where
  "mean c = sum_list c / real (length c)"

definition variance :: "real list \<Rightarrow> real" where
  "variance c = sum_list (map (\<lambda>x. (x - mean c)\<^sup>2) c) / real (length c)"

text \<open>
  The scaler uses the mean and the population variance of each column of the array it is
  fitted on. A feature of scale zero (a constant column) is left unscaled.
\<close>

definition handle_zeros_in_scale :: "real \<Rightarrow> real" where
  "handle_zeros_in_scale s = (if s = 0 then 1 else s)"

record standard_scaler =
  ss_mean :: vec
  ss_scale :: vec

definition StandardScaler_fit :: "matrix \<Rightarrow> standard_scaler" where
  "StandardScaler_fit X =
     \<lparr> ss_mean = map (\<lambda>j. mean (column X j)) [0..<n_features X],
       ss_scale = map (\<lambda>j. handle_zeros_in_scale (sqrt (variance (column X j))))
                  [0..<n_features X] \<rparr>"

definition StandardScaler_transform :: "standard_scaler \<Rightarrow> matrix \<Rightarrow> matrix" where
  "StandardScaler_transform sc X =
     map (\<lambda>r. map (\<lambda>j. (r ! j - ss_mean sc ! j) / ss_scale sc ! j) [0..<length r]) X"

subsection \<open>MinMaxScaler\<close>

text \<open>
  Fitted on an array, the scaler maps the least value of each column to the lower end of
  the feature range and the greatest to the upper end, by one affine map per column. The
  fit raises on an array without rows or without columns; \<open>Wine\<close> passes one without
  columns when it is called with \<open>n = 0\<close>.
\<close>

record minmax_scaler =
  mm_scale :: vec
  mm_min :: vec

definition MinMaxScaler_fit :: "real \<times> real \<Rightarrow> matrix \<Rightarrow> error + minmax_scaler" where
  "MinMaxScaler_fit feature_range X =
     (if n_features X = 0 then Inl ValueError
      else
        let lo = fst feature_range; hi = snd feature_range;
            data_min = map (\<lambda>j. Min (set (column X j))) [0..<n_features X];
            data_max = map (\<lambda>j. Max (set (column X j))) [0..<n_features X];
            scale = map (\<lambda>j. (hi - lo) / handle_zeros_in_scale (data_max ! j - data_min ! j))
                      [0..<n_features X];
            min = map (\<lambda>j. lo - data_min ! j * scale ! j) [0..<n_features X]
        in Inr \<lparr> mm_scale = scale, mm_min = min \<rparr>)"

definition MinMaxScaler_transform :: "minmax_scaler \<Rightarrow> matrix \<Rightarrow> matrix" where
  "MinMaxScaler_transform sc X =
     map (\<lambda>r. map (\<lambda>j. r ! j * mm_scale sc ! j + mm_min sc ! j) [0..<length r]) X"

subsection \<open>Parameters\<close>

datatype pyval = PNone | PStr string | PInt int | PFloat real

type_synonym params = "string \<rightharpoonup> (string \<rightharpoonup> pyval)"
type_synonym result = "string \<rightharpoonup> pyval"

datatype classification_input =
  ClassificationInput "(string \<times> matrix) list" "(string \<times> matrix) list"

record 'g library =
  load_wine :: "matrix \<times> nat list"
  RandomState :: "int \<Rightarrow> 'g"
  rng_permutation :: "'g \<Rightarrow> nat \<Rightarrow> nat list \<times> 'g"
  PCA_fit :: "int \<Rightarrow> matrix \<Rightarrow> error + (vec \<Rightarrow> vec)"
  run_algorithm :: "params \<Rightarrow> classification_input \<Rightarrow> 'g \<Rightarrow> (error + result) \<times> 'g"

subsection \<open>train_test_split\<close>

text \<open>
  With an integer \<open>test_size\<close> the split holds out that many rows in total. The rows are
  shuffled by one permutation of the row numbers: its first \<open>test_size\<close> entries are the
  test rows, the rest the training rows. An integer \<open>random_state\<close> seeds a generator of
  its own; only \<open>None\<close> draws from the process-wide generator. The split raises when the
  two arrays differ in length, or when \<open>test_size\<close> is not positive or not smaller than
  the number of rows.
\<close>

definition train_test_split ::
  "'g library \<Rightarrow> 'g \<Rightarrow> matrix \<Rightarrow> nat list \<Rightarrow> int \<Rightarrow> int option
     \<Rightarrow> (error + matrix \<times> matrix \<times> nat list \<times> nat list) \<times> 'g" where
  "train_test_split lib g data target test_size random_state =
     (let n_samples = length data in
      if length target \<noteq> n_samples then (Inl ValueError, g)
      else if test_size \<le> 0 \<or> int n_samples \<le> test_size then (Inl ValueError, g)
      else
        let (perm, g') = (case random_state of
                            Some seed \<Rightarrow> (fst (rng_permutation lib (RandomState lib seed) n_samples), g)
                          | None \<Rightarrow> rng_permutation lib g n_samples);
            n_test = nat test_size;
            ind_test = take n_test perm;
            ind_train = drop n_test perm
        in (Inr (map ((!) data) ind_train, map ((!) data) ind_test,
                 map ((!) target) ind_train, map ((!) target) ind_test), g'))"

section \<open>Example A: the data set preparation\<close>

text \<open>
  The function of the notebook:
  \<^verbatim>\<open>
  def Wine(training_size, test_size, n):
      class_labels = [r'A', r'B', r'C']
      data, target = datasets.load_wine(True)
      sample_train, sample_test, label_train, label_test = train_test_split(
          data, target, test_size=test_size, random_state=7)
      std_scale = StandardScaler().fit(sample_train)
      sample_train = std_scale.transform(sample_train)
      sample_test = std_scale.transform(sample_test)
      pca = PCA(n_components=n).fit(sample_train)
      sample_train = pca.transform(sample_train)
      sample_test = pca.transform(sample_test)
      samples = np.append(sample_train, sample_test, axis=0)
      minmax_scale = MinMaxScaler((-1, 1)).fit(samples)
      sample_train = minmax_scale.transform(sample_train)
      sample_test = minmax_scale.transform(sample_test)
      training_input = {key: (sample_train[label_train == k, :])[:training_size]
                        for k, key in enumerate(class_labels)}
      test_input = {key: (sample_train[label_train == k, :])[training_size:(
          training_size+test_size)] for k, key in enumerate(class_labels)}
      return sample_train, training_input, test_input, class_labels
  \<close>
  It is modelled in two parts: \<open>Wine_samples\<close> runs the split and the three
  transformations and returns the local variables, \<open>Wine\<close> slices the partitions out of
  them. Each transformation is fitted and then applied to both subsets. The process-wide
  random state is passed in and returned.
\<close>

definition Wine_standardize :: "matrix \<Rightarrow> matrix \<Rightarrow> matrix \<times> matrix" where
  "Wine_standardize sample_train sample_test =
     (let std_scale = StandardScaler_fit sample_train
      in (StandardScaler_transform std_scale sample_train,
          StandardScaler_transform std_scale sample_test))"

definition Wine_reduce ::
  "'g library \<Rightarrow> int \<Rightarrow> matrix \<Rightarrow> matrix \<Rightarrow> error + matrix \<times> matrix" where
  "Wine_reduce lib n sample_train sample_test =
     (case PCA_fit lib n sample_train of
        Inl e \<Rightarrow> Inl e
      | Inr pca \<Rightarrow> Inr (map pca sample_train, map pca sample_test))"

definition Wine_rescale ::
  "matrix \<Rightarrow> matrix \<Rightarrow> error + minmax_scaler \<times> matrix \<times> matrix" where
  "Wine_rescale sample_train sample_test =
     (let samples = sample_train @ sample_test
      in case MinMaxScaler_fit (- 1, 1) samples of
           Inl e \<Rightarrow> Inl e
         | Inr minmax_scale \<Rightarrow>
             Inr (minmax_scale,
                  MinMaxScaler_transform minmax_scale sample_train,
                  MinMaxScaler_transform minmax_scale sample_test))"

text \<open>
  The local variables of \<open>Wine\<close> when it reaches the slicing: the fitted min-max scaler,
  the two transformed subsets and their labels.
\<close>

record wine_locals =
  l_minmax_scale :: minmax_scaler
  l_sample_train :: matrix
  l_sample_test :: matrix
  l_label_train :: "nat list"
  l_label_test :: "nat list"

definition Wine_samples ::
  "'g library \<Rightarrow> 'g \<Rightarrow> int \<Rightarrow> int \<Rightarrow> (error + wine_locals) \<times> 'g" where
  "Wine_samples lib g test_size n =
     (let (data, target) = load_wine lib;
          (sp, g') = train_test_split lib g data target test_size (Some 7)
      in case sp of
           Inl e \<Rightarrow> (Inl e, g')
         | Inr (sample_train, sample_test, label_train, label_test) \<Rightarrow>
             let (sample_train, sample_test) = Wine_standardize sample_train sample_test
             in (case Wine_reduce lib n sample_train sample_test of
                   Inl e \<Rightarrow> (Inl e, g')
                 | Inr (sample_train, sample_test) \<Rightarrow>
                     (case Wine_rescale sample_train sample_test of
                        Inl e \<Rightarrow> (Inl e, g')
                      | Inr (minmax_scale, sample_train, sample_test) \<Rightarrow>
                          (Inr \<lparr> l_minmax_scale = minmax_scale,
                                 l_sample_train = sample_train, l_sample_test = sample_test,
                                 l_label_train = label_train, l_label_test = label_test \<rparr>,
                           g'))))"

record wine_result =
  sample_train :: matrix
  training_input :: "(string \<times> matrix) list"
  test_input :: "(string \<times> matrix) list"
  class_labels :: "string list"

definition Wine ::
  "'g library \<Rightarrow> 'g \<Rightarrow> int \<Rightarrow> int \<Rightarrow> int \<Rightarrow> (error + wine_result) \<times> 'g" where
  "Wine lib g training_size test_size n =
     (let class_labels = [''A'', ''B'', ''C''] in
      case Wine_samples lib g test_size n of
        (Inl e, g') \<Rightarrow> (Inl e, g')
      | (Inr L, g') \<Rightarrow>
          (Inr \<lparr> sample_train = l_sample_train L,
                 training_input =
                   map (\<lambda>(k, key). (key, py_slice 0 training_size
                                            (mask_rows (l_sample_train L) (l_label_train L) k)))
                     (enumerate 0 class_labels),
                 test_input =
                   map (\<lambda>(k, key). (key, py_slice training_size (training_size + test_size)
                                            (mask_rows (l_sample_train L) (l_label_train L) k)))
                     (enumerate 0 class_labels),
                 class_labels = class_labels \<rparr>, g'))"

text \<open>All vectors of a partition, over its classes.\<close>

definition rows_of :: "(string \<times> matrix) list \<Rightarrow> matrix" where
  "rows_of d = concat (map snd d)"

definition sizes_of :: "(string \<times> matrix) list \<Rightarrow> (string \<times> nat) list" where
  "sizes_of d = map (\<lambda>(key, rows). (key, length rows)) d"

section \<open>Example A: the experiment\<close>

text \<open>
  The cells after the definition of \<open>Wine\<close>:
  \<^verbatim>\<open>
  feature_dim = 4
  training_dataset_size = 20
  testing_dataset_size = 10
  random_seed = 10598
  np.random.seed(random_seed)
  sample_Total, training_input, test_input, class_labels = Wine(
      training_size=training_dataset_size, test_size=testing_dataset_size, n=feature_dim)
  classification_input = ClassificationInput(training_input, test_input)
  params = {
      'problem': {'name': 'classification', 'random_seed': random_seed},
      'algorithm': {'name': 'VQC'},
      'backend': {'provider': 'qiskit.BasicAer', 'name': 'statevector_simulator'},
      'optimizer': {'name': 'COBYLA', 'maxiter':200},
      'variational_form': {'name': 'RYRZ', 'depth': 3},
      'feature_map': {'name': None},
  }
  params['feature_map']['name'] = 'RawFeatureVector'
  result = run_algorithm(params, classification_input)
  print("VQC accuracy with RawFeatureVector: ", result['testing_accuracy'])
  params['feature_map']['name'] = 'SecondOrderExpansion'
  result = run_algorithm(params, classification_input)
  print("Test accuracy with SecondOrderExpansion: ", result['testing_accuracy'])
  \<close>
  \<^verbatim>\<open>np.random.seed(seed)\<close> replaces the state of the process-wide generator. numpy accepts
  seeds from 0 to 2^32 - 1, as the notebook's 10598 is; the model takes any integer.
\<close>

definition np_random_seed :: "'g library \<Rightarrow> int \<Rightarrow> 'g \<Rightarrow> 'g" where
  "np_random_seed lib seed g = RandomState lib seed"

definition prepare_dataset ::
  "'g library \<Rightarrow> 'g \<Rightarrow> int \<Rightarrow> int \<Rightarrow> int \<Rightarrow> int \<Rightarrow> (error + wine_result) \<times> 'g" where
  "prepare_dataset lib g random_seed training_dataset_size testing_dataset_size feature_dim =
     (let g = np_random_seed lib random_seed g
      in Wine lib g training_dataset_size testing_dataset_size feature_dim)"

definition initial_params :: "int \<Rightarrow> params" where
  "initial_params random_seed =
     [''problem'' \<mapsto> [''name'' \<mapsto> PStr ''classification'', ''random_seed'' \<mapsto> PInt random_seed],
      ''algorithm'' \<mapsto> [''name'' \<mapsto> PStr ''VQC''],
      ''backend'' \<mapsto> [''provider'' \<mapsto> PStr ''qiskit.BasicAer'',
                      ''name'' \<mapsto> PStr ''statevector_simulator''],
      ''optimizer'' \<mapsto> [''name'' \<mapsto> PStr ''COBYLA'', ''maxiter'' \<mapsto> PInt 200],
      ''variational_form'' \<mapsto> [''name'' \<mapsto> PStr ''RYRZ'', ''depth'' \<mapsto> PInt 3],
      ''feature_map'' \<mapsto> [''name'' \<mapsto> PNone]]"

definition set_item :: "params \<Rightarrow> string \<Rightarrow> string \<Rightarrow> pyval \<Rightarrow> error + params" where
  "set_item p sec key v =
     (case p sec of None \<Rightarrow> Inl KeyError | Some d \<Rightarrow> Inr (p(sec \<mapsto> d(key \<mapsto> v))))"

definition get_item :: "result \<Rightarrow> string \<Rightarrow> error + pyval" where
  "get_item r key = (case r key of None \<Rightarrow> Inl KeyError | Some v \<Rightarrow> Inr v)"

text \<open>What the notebook does to the outside: calls of the algorithm and printed lines.\<close>

datatype event = Call_run_algorithm params classification_input | Print string pyval

text \<open>
  One experiment cell: name the feature map in the shared parameters, run the algorithm,
  print the testing accuracy of its result. An exception ends the notebook run.
\<close>

definition run_cell ::
  "'g library \<Rightarrow> params \<Rightarrow> classification_input \<Rightarrow> string \<Rightarrow> string \<Rightarrow> 'g
     \<Rightarrow> (error + params) \<times> event list \<times> 'g" where
  "run_cell lib params cinput feature_map message g =
     (case set_item params ''feature_map'' ''name'' (PStr feature_map) of
        Inl e \<Rightarrow> (Inl e, [], g)
      | Inr params \<Rightarrow>
          (case run_algorithm lib params cinput g of
             (Inl e, g') \<Rightarrow> (Inl e, [Call_run_algorithm params cinput], g')
           | (Inr result, g') \<Rightarrow>
               (case get_item result ''testing_accuracy'' of
                  Inl e \<Rightarrow> (Inl e, [Call_run_algorithm params cinput], g')
                | Inr acc \<Rightarrow>
                    (Inr params, [Call_run_algorithm params cinput, Print message acc], g'))))"

definition example_A :: "'g library \<Rightarrow> 'g \<Rightarrow> (error + unit) \<times> event list \<times> 'g" where
  "example_A lib g =
     (let feature_dim = 4; training_dataset_size = 20; testing_dataset_size = 10;
          random_seed = 10598
      in case prepare_dataset lib g random_seed training_dataset_size testing_dataset_size
                feature_dim of
           (Inl e, g) \<Rightarrow> (Inl e, [], g)
         | (Inr r, g) \<Rightarrow>
             let classification_input = ClassificationInput (training_input r) (test_input r);
                 params = initial_params random_seed
             in (case run_cell lib params classification_input ''RawFeatureVector''
                        ''VQC accuracy with RawFeatureVector: '' g of
                   (Inl e, out1, g) \<Rightarrow> (Inl e, out1, g)
                 | (Inr params, out1, g) \<Rightarrow>
                     (case run_cell lib params classification_input ''SecondOrderExpansion''
                             ''Test accuracy with SecondOrderExpansion: '' g of
                        (Inl e, out2, g) \<Rightarrow> (Inl e, out1 @ out2, g)
                      | (Inr params, out2, g) \<Rightarrow> (Inr (), out1 @ out2, g))))"

definition is_call :: "event \<Rightarrow> bool" where
  "is_call ev = (case ev of Call_run_algorithm _ _ \<Rightarrow> True | Print _ _ \<Rightarrow> False)"

section \<open>Assumptions on the library\<close>

text \<open>A fitted principal component analysis with \<open>n\<close> components maps to vectors of length \<open>n\<close>.\<close>

definition PCA_shape :: "'g library \<Rightarrow> bool" where
  "PCA_shape lib =
     (\<forall>n X pca. PCA_fit lib n X = Inr pca \<longrightarrow> (\<forall>v. length (pca v) = nat n))"

text \<open>Shuffling \<open>m\<close> row numbers yields a permutation of them.\<close>

definition permutation_ok :: "'g library \<Rightarrow> int \<Rightarrow> nat \<Rightarrow> bool" where
  "permutation_ok lib seed m =
     (mset (fst (rng_permutation lib (RandomState lib seed) m)) = mset [0..<m])"

text \<open>The fit with \<open>n\<close> components succeeds on every array of \<open>m\<close> rows and \<open>d\<close> columns.\<close>

definition PCA_succeeds :: "'g library \<Rightarrow> int \<Rightarrow> nat \<Rightarrow> nat \<Rightarrow> bool" where
  "PCA_succeeds lib n m d =
     (\<forall>X. length X = m \<and> rect X d \<longrightarrow> (\<exists>pca. PCA_fit lib n X = Inr pca))"

text \<open>Every run of the algorithm returns a result with a testing accuracy.\<close>

definition reports_accuracy :: "'g library \<Rightarrow> bool" where
  "reports_accuracy lib =
     (\<forall>p c g. \<exists>res a g'. run_algorithm lib p c g = (Inr res, g') \<and>
                          res ''testing_accuracy'' = Some (PFloat a))"

section \<open>Example libraries\<close>

text \<open>
  A library to run the definitions on: the generator state is a counter, a permutation is
  a rotation of the row numbers, the reduction keeps the first \<open>n\<close> coordinates, and the
  algorithm reports one fixed accuracy.
\<close>

definition example_pca :: "int \<Rightarrow> matrix \<Rightarrow> error + (vec \<Rightarrow> vec)" where
  "example_pca n X =
     (if n < 0 \<or> int (min (length X) (n_features X)) < n then Inl ValueError
      else Inr (\<lambda>v. take (nat n) (v @ replicate (nat n) 0)))"

definition example_library :: "matrix \<times> nat list \<Rightarrow> nat library" where
  "example_library ds =
     \<lparr> load_wine = ds,
       RandomState = (\<lambda>seed. nat seed),
       rng_permutation = (\<lambda>g m. (rotate g [0..<m], Suc g)),
       PCA_fit = example_pca,
       run_algorithm = (\<lambda>p c g. (Inr [''testing_accuracy'' \<mapsto> PFloat (1 / 2)], Suc g)) \<rparr>"

text \<open>
  Nine rows of two features in three classes; row 7, the one the split holds out when
  \<open>test_size\<close> is 1, carries the parameter \<open>x\<close>.
\<close>

definition small_data :: "real \<Rightarrow> matrix \<times> nat list" where
  "small_data x =
     ([[2, 3], [- 2, 3], [4, 3], [- 4, 3], [5, 3], [- 5, 3], [6, 3], [x, 3], [- 6, 3]],
      [0, 0, 0, 1, 1, 1, 2, 2, 2])"

definition small_raw_train :: matrix where
  "small_raw_train = [[- 6, 3], [2, 3], [- 2, 3], [4, 3], [- 4, 3], [5, 3], [- 5, 3], [6, 3]]"

definition small_train :: matrix where
  "small_train = [[- 1], [1 / 3], [- (1 / 3)], [2 / 3], [- (2 / 3)], [5 / 6], [- (5 / 6)], [1]]"

definition small_locals :: "real \<Rightarrow> wine_locals" where
  "small_locals x =
     \<lparr> l_minmax_scale = \<lparr> mm_scale = [3 / 4], mm_min = [0] \<rparr>,
       l_sample_train = small_train,
       l_sample_test = [[x / 6]],
       l_label_train = [2, 0, 0, 0, 1, 1, 1, 2],
       l_label_test = [2] \<rparr>"

definition small_result :: wine_result where
  "small_result =
     \<lparr> sample_train = small_train,
       training_input = [(''A'', [[1 / 3]]), (''B'', [[- (2 / 3)]]), (''C'', [[- 1]])],
       test_input = [(''A'', [[- (1 / 3)]]), (''B'', [[5 / 6]]), (''C'', [[1]])],
       class_labels = [''A'', ''B'', ''C''] \<rparr>"

definition small_result_2 :: wine_result where
  "small_result_2 =
     \<lparr> sample_train = small_train,
       training_input = [(''A'', [[1 / 3], [- (1 / 3)]]), (''B'', [[- (2 / 3)], [5 / 6]]),
                         (''C'', [[- 1], [1]])],
       test_input = [(''A'', [[2 / 3]]), (''B'', [[- (5 / 6)]]), (''C'', [])],
       class_labels = [''A'', ''B'', ''C''] \<rparr>"

text \<open>A data set of the shape of the wine data: 178 rows of 13 features, 59, 71 and 48 per class.\<close>

definition wine_shaped_data :: "matrix \<times> nat list" where
  "wine_shaped_data =
     (replicate 59 (replicate 13 0) @ replicate 71 (replicate 13 1) @ replicate 48 (replicate 13 2),
      replicate 59 0 @ replicate 71 1 @ replicate 48 2)"

section \<open>Slices and masks\<close>

lemma py_index_zero: "py_index len 0 = 0"
  by (simp add: py_index_def)

lemma py_slice_prefix: "py_slice 0 t xs = take (py_index (length xs) t) xs"
  by (simp add: py_slice_def py_index_zero)

lemma py_slice_consecutive:
  "py_slice 0 t xs @ py_slice t (t + s) xs =
     take (py_index (length xs) t + (py_index (length xs) (t + s) - py_index (length xs) t)) xs"
  by (simp add: py_slice_def py_index_zero take_add Let_def)

lemma py_slice_take: "0 \<le> t \<Longrightarrow> py_slice 0 t xs = take (nat t) xs"
  by (simp add: py_slice_prefix py_index_def min_def)

lemma py_slice_take_drop:
  assumes "0 \<le> t" "0 \<le> s"
  shows "py_slice t (t + s) xs = take (nat s) (drop (nat t) xs)"
proof (cases "nat t \<le> length xs")
  case True
  have "min (nat (t + s)) (length xs) - nat t = min (nat s) (length xs - nat t)"
    using assms True by (auto simp: nat_add_distrib min_def)
  then show ?thesis
    using assms True by (auto simp: py_slice_def py_index_def Let_def min_def)
next
  case False
  then show ?thesis
    using assms by (simp add: py_slice_def py_index_def Let_def)
qed

lemma set_mask_rows: "set (mask_rows X ls k) \<subseteq> set X"
  by (auto simp: mask_rows_def dest: set_zip_leftD)

lemma length_mask_rows:
  "length X = length ls \<Longrightarrow> length (mask_rows X ls k) = count_list ls k"
  unfolding mask_rows_def
  by (induction X ls rule: list_induct2) auto

lemma mset_filter_disjoint:
  "(\<forall>x\<in>set zs. \<not> (P x \<and> Q x)) \<Longrightarrow>
   mset (filter P zs) + mset (filter Q zs) = mset (filter (\<lambda>x. P x \<or> Q x) zs)"
  by (induction zs) auto

lemma mask_rows_classes:
  "distinct ks \<Longrightarrow>
   (\<Sum>k\<leftarrow>ks. mset (mask_rows X ls k)) = mset (map fst (filter (\<lambda>(r, l). l \<in> set ks) (zip X ls)))"
proof (induction ks)
  case Nil
  then show ?case by (simp add: mask_rows_def)
next
  case (Cons k ks)
  have "mset (filter (\<lambda>(r, l). l = k) (zip X ls)) + mset (filter (\<lambda>(r, l). l \<in> set ks) (zip X ls))
        = mset (filter (\<lambda>x. (case x of (r, l) \<Rightarrow> l = k) \<or> (case x of (r, l) \<Rightarrow> l \<in> set ks)) (zip X ls))"
    using Cons.prems by (intro mset_filter_disjoint) auto
  also have "\<dots> = mset (filter (\<lambda>(r, l). l \<in> set (k # ks)) (zip X ls))"
    by (rule arg_cong [where f = mset], rule filter_cong) auto
  finally have "image_mset fst (mset (filter (\<lambda>(r, l). l = k) (zip X ls)))
         + image_mset fst (mset (filter (\<lambda>(r, l). l \<in> set ks) (zip X ls)))
        = image_mset fst (mset (filter (\<lambda>(r, l). l \<in> set (k # ks)) (zip X ls)))"
    by (metis image_mset_union)
  then show ?case
    using Cons by (simp add: mask_rows_def)
qed

lemma mask_rows_classes_subset:
  assumes "distinct ks"
  shows "(\<Sum>k\<leftarrow>ks. mset (mask_rows X ls k)) \<subseteq># mset X"
proof -
  have "mset (map fst (filter (\<lambda>(r, l). l \<in> set ks) (zip X ls))) \<subseteq># mset (map fst (zip X ls))"
    by (simp add: image_mset_subseteq_mono)
  also have "\<dots> \<subseteq># mset X"
    by (metis map_fst_zip_take append_take_drop_id mset_append mset_subset_eq_add_left)
  finally show ?thesis
    by (simp add: mask_rows_classes [OF assms])
qed

section \<open>The split and the structure of a successful call\<close>

lemma train_test_split_seeded_state:
  "snd (train_test_split lib g data target s (Some seed)) = g"
  by (simp add: train_test_split_def Let_def)

lemma train_test_split_seeded_result:
  "fst (train_test_split lib g data target s (Some seed)) =
   fst (train_test_split lib g' data target s (Some seed))"
  by (simp add: train_test_split_def Let_def)

lemma train_test_split_Inr:
  assumes "train_test_split lib g data target s (Some seed) = (Inr (tr, te, ltr, lte), g')"
  shows "length target = length data" "0 < s" "s < int (length data)"
    "tr = map ((!) data) (drop (nat s) (fst (rng_permutation lib (RandomState lib seed) (length data))))"
    "te = map ((!) data) (take (nat s) (fst (rng_permutation lib (RandomState lib seed) (length data))))"
    "ltr = map ((!) target) (drop (nat s) (fst (rng_permutation lib (RandomState lib seed) (length data))))"
    "lte = map ((!) target) (take (nat s) (fst (rng_permutation lib (RandomState lib seed) (length data))))"
    "g' = g"
  using assms by (auto simp: train_test_split_def Let_def split: if_splits)

lemma Wine_samples_state: "snd (Wine_samples lib g s n) = g"
proof -
  obtain data target where d: "load_wine lib = (data, target)"
    by (cases "load_wine lib")
  obtain sp g' where s: "train_test_split lib g data target s (Some 7) = (sp, g')"
    by (cases "train_test_split lib g data target s (Some 7)")
  have "g' = g"
    using train_test_split_seeded_state [of lib g data target s 7] s by simp
  then show ?thesis
    by (simp add: Wine_samples_def d s Let_def split: sum.splits prod.splits)
qed

lemma Wine_samples_Inr:
  assumes "Wine_samples lib g s n = (Inr L, g')"
  obtains data target tr te ltr lte pca mm where
    "load_wine lib = (data, target)"
    "train_test_split lib g data target s (Some 7) = (Inr (tr, te, ltr, lte), g')"
    "PCA_fit lib n (fst (Wine_standardize tr te)) = Inr pca"
    "MinMaxScaler_fit (- 1, 1)
       (map pca (fst (Wine_standardize tr te)) @ map pca (snd (Wine_standardize tr te))) = Inr mm"
    "L = \<lparr> l_minmax_scale = mm,
           l_sample_train = MinMaxScaler_transform mm (map pca (fst (Wine_standardize tr te))),
           l_sample_test = MinMaxScaler_transform mm (map pca (snd (Wine_standardize tr te))),
           l_label_train = ltr, l_label_test = lte \<rparr>"
proof -
  obtain data target where d: "load_wine lib = (data, target)"
    by (cases "load_wine lib")
  obtain sp g1 where s: "train_test_split lib g data target s (Some 7) = (sp, g1)"
    by (cases "train_test_split lib g data target s (Some 7)")
  show thesis
    using assms that [OF d]
    by (auto simp: Wine_samples_def d s Let_def Wine_reduce_def Wine_rescale_def
        split: sum.splits prod.splits)
qed

lemma Wine_Inr:
  "Wine lib g t s n = (Inr r, g') \<longleftrightarrow>
     (\<exists>L. Wine_samples lib g s n = (Inr L, g') \<and>
          r = \<lparr> sample_train = l_sample_train L,
                training_input =
                  [(''A'', py_slice 0 t (mask_rows (l_sample_train L) (l_label_train L) 0)),
                   (''B'', py_slice 0 t (mask_rows (l_sample_train L) (l_label_train L) 1)),
                   (''C'', py_slice 0 t (mask_rows (l_sample_train L) (l_label_train L) 2))],
                test_input =
                  [(''A'', py_slice t (t + s) (mask_rows (l_sample_train L) (l_label_train L) 0)),
                   (''B'', py_slice t (t + s) (mask_rows (l_sample_train L) (l_label_train L) 1)),
                   (''C'', py_slice t (t + s) (mask_rows (l_sample_train L) (l_label_train L) 2))],
                class_labels = [''A'', ''B'', ''C''] \<rparr>)"
  by (cases "Wine_samples lib g s n")
     (auto simp: Wine_def Let_def enumerate_eq_zip upt_rec numeral_2_eq_2 split: sum.splits)

lemma length_StandardScaler_transform: "length (StandardScaler_transform sc X) = length X"
  by (simp add: StandardScaler_transform_def)

lemma length_MinMaxScaler_transform: "length (MinMaxScaler_transform sc X) = length X"
  by (simp add: MinMaxScaler_transform_def)

lemma Wine_samples_lengths:
  assumes "Wine_samples lib g s n = (Inr L, g')"
  shows "length (l_sample_train L) = length (l_label_train L)"
proof -
  from assms obtain data target tr te ltr lte pca mm where
    sp: "train_test_split lib g data target s (Some 7) = (Inr (tr, te, ltr, lte), g')" and
    L: "L = \<lparr> l_minmax_scale = mm,
           l_sample_train = MinMaxScaler_transform mm (map pca (fst (Wine_standardize tr te))),
           l_sample_test = MinMaxScaler_transform mm (map pca (snd (Wine_standardize tr te))),
           l_label_train = ltr, l_label_test = lte \<rparr>"
    by (rule Wine_samples_Inr)
  have "length tr = length ltr"
    using train_test_split_Inr(4,6) [OF sp] by simp
  then show ?thesis
    by (simp add: L Wine_standardize_def Let_def
        length_StandardScaler_transform length_MinMaxScaler_transform)
qed

section \<open>Where the partitions come from\<close>

lemma set_py_slice: "set (py_slice lo hi xs) \<subseteq> set xs"
  by (auto simp: py_slice_def Let_def dest!: in_set_takeD in_set_dropD)

lemma Wine_rows_subset:
  assumes "Wine lib g t s n = (Inr r, g')"
  shows "set (rows_of (training_input r)) \<subseteq> set (sample_train r)"
    and "set (rows_of (test_input r)) \<subseteq> set (sample_train r)"
  using assms set_py_slice set_mask_rows
  by (fastforce simp: Wine_Inr rows_of_def)+

lemma Wine_rows_mset:
  assumes "Wine lib g t s n = (Inr r, g')"
  shows "mset (rows_of (training_input r)) + mset (rows_of (test_input r)) \<subseteq># mset (sample_train r)"
proof -
  from assms obtain L where L: "Wine_samples lib g s n = (Inr L, g')" and
    r: "r = \<lparr> sample_train = l_sample_train L,
                training_input =
                  [(''A'', py_slice 0 t (mask_rows (l_sample_train L) (l_label_train L) 0)),
                   (''B'', py_slice 0 t (mask_rows (l_sample_train L) (l_label_train L) 1)),
                   (''C'', py_slice 0 t (mask_rows (l_sample_train L) (l_label_train L) 2))],
                test_input =
                  [(''A'', py_slice t (t + s) (mask_rows (l_sample_train L) (l_label_train L) 0)),
                   (''B'', py_slice t (t + s) (mask_rows (l_sample_train L) (l_label_train L) 1)),
                   (''C'', py_slice t (t + s) (mask_rows (l_sample_train L) (l_label_train L) 2))],
                class_labels = [''A'', ''B'', ''C''] \<rparr>"
    by (auto simp: Wine_Inr)
  define M where "M k = mask_rows (l_sample_train L) (l_label_train L) k" for k
  have seg: "mset (py_slice 0 t xs) + mset (py_slice t (t + s) xs) \<subseteq># mset xs" for xs :: matrix
  proof -
    have "mset (py_slice 0 t xs @ py_slice t (t + s) xs) \<subseteq># mset xs"
      unfolding py_slice_consecutive
      by (metis append_take_drop_id mset_append mset_subset_eq_add_left)
    then show ?thesis by simp
  qed
  have "mset (rows_of (training_input r)) + mset (rows_of (test_input r))
        = (mset (py_slice 0 t (M 0)) + mset (py_slice t (t + s) (M 0)))
        + ((mset (py_slice 0 t (M 1)) + mset (py_slice t (t + s) (M 1)))
        + (mset (py_slice 0 t (M 2)) + mset (py_slice t (t + s) (M 2))))"
    by (simp add: r rows_of_def M_def)
  also have "\<dots> \<subseteq># mset (M 0) + (mset (M 1) + mset (M 2))"
    by (intro subset_mset.add_mono seg)
  also have "\<dots> = (\<Sum>k\<leftarrow>[0, 1, 2]. mset (M k))"
    by simp
  also have "\<dots> \<subseteq># mset (l_sample_train L)"
    unfolding M_def by (rule mask_rows_classes_subset) simp
  finally show ?thesis
    by (simp add: r)
qed

lemma mset_disjoint_sets:
  assumes "mset xs + mset ys \<subseteq># mset zs" "distinct zs"
  shows "set xs \<inter> set ys = {}"
proof (rule ccontr)
  assume "set xs \<inter> set ys \<noteq> {}"
  then obtain x where "x \<in> set xs" "x \<in> set ys" by auto
  then have "2 \<le> count (mset xs + mset ys) x"
    by (simp add: count_mset) (metis Suc_leI add_mono count_list_0_iff neq0_conv One_nat_def one_add_one)
  moreover have "count (mset xs + mset ys) x \<le> count (mset zs) x"
    using assms(1) by (rule mset_subset_eq_count)
  moreover have "count (mset zs) x \<le> 1"
    using assms(2) by (simp add: distinct_count_atmost_1)
  ultimately show False by simp
qed

section \<open>Standardization\<close>

lemma n_features_rect: "X \<noteq> [] \<Longrightarrow> rect X d \<Longrightarrow> n_features X = d"
  by (cases X) (simp_all add: n_features_def rect_def)







lemma rect_StandardScaler_transform: "rect X d \<Longrightarrow> rect (StandardScaler_transform sc X) d"
  by (auto simp: rect_def StandardScaler_transform_def)

section \<open>Rescaling\<close>

text \<open>
  In exact arithmetic the fitted scaler maps every row of the array it was fitted on into
  the feature range. The code computes \<open>x * scale + min\<close> in double precision, where
  rounding can carry the image of a column's greatest value one unit in the last place
  above 1; the bound below is a fact of the exact model and not of the rounded results.
\<close>

lemma minmax_entry:
  assumes "rect S d" "r \<in> set S" "j < d" "MinMaxScaler_fit (- 1, 1) S = Inr sc"
  shows "- 1 \<le> r ! j * mm_scale sc ! j + mm_min sc ! j \<and> r ! j * mm_scale sc ! j + mm_min sc ! j \<le> 1"
proof -
  let ?c = "column S j"
  let ?mn = "Min (set ?c)" and ?mx = "Max (set ?c)"
  let ?k = "2 / handle_zeros_in_scale (?mx - ?mn)"
  have ne: "S \<noteq> []" using assms(2) by auto
  have nf: "n_features S = d" using ne assms(1) by (rule n_features_rect)
  have sc: "sc = \<lparr> mm_scale = map (\<lambda>j. 2 / handle_zeros_in_scale
                                     (Max (set (column S j)) - Min (set (column S j)))) [0..<d],
                     mm_min = map (\<lambda>j. - 1 - Min (set (column S j)) *
                                     (2 / handle_zeros_in_scale
                                        (Max (set (column S j)) - Min (set (column S j))))) [0..<d] \<rparr>"
    using assms(3,4) by (auto simp: MinMaxScaler_fit_def Let_def nf split: if_splits)
  have scale: "mm_scale sc ! j = ?k"
    using assms(3) by (simp add: sc)
  have mn: "mm_min sc ! j = - 1 - ?mn * ?k"
    using assms(3) by (simp add: sc)
  have mem: "r ! j \<in> set ?c"
    using assms(2) by (simp add: column_def)
  have lo: "?mn \<le> r ! j" using mem by simp
  have hi: "r ! j \<le> ?mx" using mem by simp
  have val: "r ! j * mm_scale sc ! j + mm_min sc ! j = - 1 + (r ! j - ?mn) * ?k"
    by (simp add: scale mn algebra_simps diff_divide_distrib)
  show ?thesis
  proof (cases "?mx - ?mn = 0")
    case True
    then have "r ! j - ?mn = 0" using lo hi by simp
    then show ?thesis unfolding val by simp
  next
    case False
    then have pos: "0 < ?mx - ?mn" using lo hi by simp
    have k: "?k = 2 / (?mx - ?mn)" using False by (simp add: handle_zeros_in_scale_def)
    have "0 \<le> (r ! j - ?mn) * ?k"
      using lo pos by (simp add: k)
    moreover have "(r ! j - ?mn) * ?k \<le> 2"
    proof -
      have "(r ! j - ?mn) * 2 \<le> 2 * (?mx - ?mn)" using hi by simp
      then have "(r ! j - ?mn) * 2 / (?mx - ?mn) \<le> 2"
        using pos by (simp add: pos_divide_le_eq)
      then show ?thesis by (simp add: k)
    qed
    ultimately show ?thesis unfolding val by simp
  qed
qed

lemma MinMaxScaler_transform_range:
  assumes "rect (X @ T) d" "MinMaxScaler_fit (- 1, 1) (X @ T) = Inr sc"
    "v \<in> set (MinMaxScaler_transform sc X)" "x \<in> set v"
  shows "- 1 \<le> x \<and> x \<le> 1"
proof -
  from assms(3) obtain r where r: "r \<in> set X"
    and v: "v = map (\<lambda>j. r ! j * mm_scale sc ! j + mm_min sc ! j) [0..<length r]"
    by (auto simp: MinMaxScaler_transform_def)
  have len: "length r = d" using assms(1) r by (simp add: rect_def)
  from assms(4) obtain j where j: "j < d"
    and x: "x = r ! j * mm_scale sc ! j + mm_min sc ! j"
    by (auto simp: v len)
  have "r \<in> set (X @ T)" using r by simp
  from minmax_entry [OF assms(1) this j assms(2)] show ?thesis by (simp add: x)
qed

lemma Wine_sample_train_range:
  assumes "Wine_samples lib g s n = (Inr L, g')" "PCA_shape lib"
    "v \<in> set (l_sample_train L)" "x \<in> set v"
  shows "- 1 \<le> x \<and> x \<le> 1"
proof -
  from assms(1) obtain tr te ltr lte pca mm where
    pca: "PCA_fit lib n (fst (Wine_standardize tr te)) = Inr pca" and
    mm: "MinMaxScaler_fit (- 1, 1)
           (map pca (fst (Wine_standardize tr te)) @ map pca (snd (Wine_standardize tr te)))
         = Inr mm" and
    L: "L = \<lparr> l_minmax_scale = mm,
           l_sample_train = MinMaxScaler_transform mm (map pca (fst (Wine_standardize tr te))),
           l_sample_test = MinMaxScaler_transform mm (map pca (snd (Wine_standardize tr te))),
           l_label_train = ltr, l_label_test = lte \<rparr>"
    by (rule Wine_samples_Inr)
  let ?X = "map pca (fst (Wine_standardize tr te))"
  let ?T = "map pca (snd (Wine_standardize tr te))"
  have "\<forall>u. length (pca u) = nat n"
    using assms(2) pca unfolding PCA_shape_def by blast
  then have "rect (?X @ ?T) (nat n)"
    by (auto simp: rect_def)
  moreover have "v \<in> set (MinMaxScaler_transform mm ?X)"
    using assms(3) by (simp add: L)
  ultimately show ?thesis
    using mm assms(4) by (intro MinMaxScaler_transform_range [of ?X ?T "nat n" mm v x])
qed

section \<open>Counts after the split, and success\<close>

lemma split_permutation:
  assumes "train_test_split lib g data target s (Some seed) = (Inr (tr, te, ltr, lte), g')"
    "permutation_ok lib seed (length data)"
  shows "count_list ltr k + count_list lte k = count_list target k"
    and "length lte = nat s"
    and "length tr = length data - nat s"
    and "set tr \<subseteq> set data"
proof -
  define perm where "perm = fst (rng_permutation lib (RandomState lib seed) (length data))"
  note sp = train_test_split_Inr [OF assms(1), folded perm_def]
  have p: "mset perm = mset [0..<length data]"
    using assms(2) by (simp add: permutation_ok_def perm_def)
  from p have "length perm = length [0..<length data]"
    by (rule mset_eq_length)
  then have lp: "length perm = length data"
    by simp
  from p have "set perm = set [0..<length data]"
    by (rule mset_eq_setD)
  then have sp': "set perm = {0..<length data}"
    by simp
  have "mset (drop (nat s) perm) + mset (take (nat s) perm) = mset perm"
    by (metis add.commute append_take_drop_id mset_append)
  then have "mset ltr + mset lte = image_mset ((!) target) (mset perm)"
    unfolding sp by (simp flip: image_mset_union)
  also have "\<dots> = image_mset ((!) target) (mset [0..<length target])"
    using p by (simp add: sp(1))
  also have "\<dots> = mset (map ((!) target) [0..<length target])"
    by simp
  also have "\<dots> = mset target"
    by (simp only: map_nth)
  finally have "count (mset ltr + mset lte) k = count (mset target) k"
    by simp
  then show "count_list ltr k + count_list lte k = count_list target k"
    by (simp add: count_mset)
  show "length lte = nat s"
    using sp(2,3) by (simp add: sp(7) lp)
  show "length tr = length data - nat s"
    by (simp add: sp(4) lp)
  show "set tr \<subseteq> set data"
    using sp' by (auto simp: sp(4) dest!: in_set_dropD)
qed

lemma train_test_split_total:
  assumes "length target = length data" "0 < s" "s < int (length data)"
  shows "\<exists>tr te ltr lte. train_test_split lib g data target s (Some seed) = (Inr (tr, te, ltr, lte), g)"
  using assms by (simp add: train_test_split_def Let_def)

lemma Wine_samples_total:
  assumes "load_wine lib = (data, target)" "length target = length data"
    "0 < s" "s < int (length data)" "rect data d" "permutation_ok lib 7 (length data)"
    "PCA_succeeds lib n (length data - nat s) d" "PCA_shape lib" "0 < n"
  shows "\<exists>L. Wine_samples lib g s n = (Inr L, g)"
proof -
  obtain tr te ltr lte where
    sp: "train_test_split lib g data target s (Some 7) = (Inr (tr, te, ltr, lte), g)"
    using train_test_split_total [OF assms(2,3,4), where lib = lib and g = g and seed = 7] by blast
  have len: "length tr = length data - nat s" and sub: "set tr \<subseteq> set data"
    using split_permutation(3,4) [OF sp assms(6)] by auto
  have "rect tr d"
    using sub assms(5) by (auto simp: rect_def)
  then have "rect (fst (Wine_standardize tr te)) d"
    by (simp add: Wine_standardize_def Let_def rect_StandardScaler_transform)
  moreover have "length (fst (Wine_standardize tr te)) = length data - nat s"
    by (simp add: Wine_standardize_def Let_def length_StandardScaler_transform len)
  ultimately obtain pca where pca: "PCA_fit lib n (fst (Wine_standardize tr te)) = Inr pca"
    using assms(7) unfolding PCA_succeeds_def by blast
  have "fst (Wine_standardize tr te) \<noteq> []"
    using len assms(3,4) by (auto simp: Wine_standardize_def Let_def StandardScaler_transform_def)
  moreover have "\<forall>u. length (pca u) = nat n"
    using assms(8) pca unfolding PCA_shape_def by blast
  ultimately have "n_features (map pca (fst (Wine_standardize tr te)) @
                               map pca (snd (Wine_standardize tr te))) \<noteq> 0"
    using assms(9) by (cases "fst (Wine_standardize tr te)") (simp_all add: n_features_def)
  then obtain mm where "MinMaxScaler_fit (- 1, 1)
      (map pca (fst (Wine_standardize tr te)) @ map pca (snd (Wine_standardize tr te))) = Inr mm"
    by (simp add: MinMaxScaler_fit_def Let_def)
  then show ?thesis
    using pca
    by (simp add: Wine_samples_def assms(1) sp Wine_reduce_def Wine_rescale_def Let_def
        case_prod_beta)
qed

lemma Wine_sizes:
  assumes "Wine_samples lib g s n = (Inr L, g')" "0 \<le> t" "0 \<le> s"
  shows "length (py_slice 0 t (mask_rows (l_sample_train L) (l_label_train L) k))
           = min (nat t) (count_list (l_label_train L) k)"
    and "length (py_slice t (t + s) (mask_rows (l_sample_train L) (l_label_train L) k))
           = min (nat s) (count_list (l_label_train L) k - nat t)"
  using assms(2,3) Wine_samples_lengths [OF assms(1)]
  by (simp_all add: py_slice_take py_slice_take_drop length_mask_rows)

lemma Wine_row_length:
  assumes "Wine_samples lib g s n = (Inr L, g')" "PCA_shape lib" "v \<in> set (l_sample_train L)"
  shows "length v = nat n"
proof -
  from assms(1) obtain tr te ltr lte pca mm where
    pca: "PCA_fit lib n (fst (Wine_standardize tr te)) = Inr pca" and
    L: "L = \<lparr> l_minmax_scale = mm,
           l_sample_train = MinMaxScaler_transform mm (map pca (fst (Wine_standardize tr te))),
           l_sample_test = MinMaxScaler_transform mm (map pca (snd (Wine_standardize tr te))),
           l_label_train = ltr, l_label_test = lte \<rparr>"
    by (rule Wine_samples_Inr)
  have "\<forall>u. length (pca u) = nat n"
    using assms(2) pca unfolding PCA_shape_def by blast
  then show ?thesis
    using assms(3) by (auto simp: L MinMaxScaler_transform_def)
qed

section \<open>The example libraries, evaluated\<close>

lemma rotate_7_9: "rotate 7 [0..<9] = [7, 8, 0, 1, 2, 3, 4, 5, 6]"
  by code_simp

lemma sqrt_81_4: "sqrt (81 / 4) = 9 / 2"
  by (rule real_sqrt_unique) (simp_all add: power2_eq_square)

lemma small_perm:
  "fst (rng_permutation (example_library ds) (RandomState (example_library ds) 7) 9)
     = [7, 8, 0, 1, 2, 3, 4, 5, 6]"
  by (simp only: example_library_def library.select_convs rotate_7_9 nat_numeral fst_conv)

lemma small_split:
  "train_test_split (example_library ds) g (fst (small_data x)) (snd (small_data x)) 1 (Some 7) =
     (Inr (small_raw_train, [[x, 3]], [2, 0, 0, 0, 1, 1, 1, 2], [2]), g)"
proof -
  have "length (fst (small_data x)) = 9" "length (snd (small_data x)) = 9"
    by (simp_all add: small_data_def)
  then show ?thesis
    by (simp add: train_test_split_def Let_def small_perm)
       (simp add: small_data_def small_raw_train_def)
qed

lemma small_standardize:
  "Wine_standardize small_raw_train [[x, 3]]
     = ([[- (4 / 3), 0], [4 / 9, 0], [- (4 / 9), 0], [8 / 9, 0], [- (8 / 9), 0],
         [10 / 9, 0], [- (10 / 9), 0], [4 / 3, 0]], [[x * 2 / 9, 0]])"
  by (simp add: Wine_standardize_def StandardScaler_fit_def StandardScaler_transform_def
      small_raw_train_def n_features_def column_def mean_def variance_def
      handle_zeros_in_scale_def sqrt_81_4)

lemma small_reduce:
  "Wine_reduce (example_library ds) 1
     [[- (4 / 3), 0], [4 / 9, 0], [- (4 / 9), 0], [8 / 9, 0], [- (8 / 9), 0],
      [10 / 9, 0], [- (10 / 9), 0], [4 / 3, 0]] [[y, 0]]
     = Inr ([[- (4 / 3)], [4 / 9], [- (4 / 9)], [8 / 9], [- (8 / 9)], [10 / 9], [- (10 / 9)],
             [4 / 3]], [[y]])"
  by (simp add: Wine_reduce_def example_library_def example_pca_def n_features_def)

lemma small_column:
  "column [[- (4 / 3)], [4 / 9], [- (4 / 9)], [8 / 9], [- (8 / 9)], [10 / 9], [- (10 / 9)],
           [4 / 3], [y]] 0
     = [- (4 / 3), 4 / 9, - (4 / 9), 8 / 9, - (8 / 9), 10 / 9, - (10 / 9), 4 / 3, y]"
  by (simp add: column_def)

lemma small_min:
  assumes "- (4 / 3) \<le> y"
  shows "Min (set [- (4 / 3), 4 / 9, - (4 / 9), 8 / 9, - (8 / 9), 10 / 9, - (10 / 9), 4 / 3, y])
           = (- (4 / 3) :: real)"
  using assms by (simp add: Min.set_eq_fold del: list.set)

lemma small_max:
  assumes "y \<le> 4 / 3"
  shows "Max (set [- (4 / 3), 4 / 9, - (4 / 9), 8 / 9, - (8 / 9), 10 / 9, - (10 / 9), 4 / 3, y])
           = (4 / 3 :: real)"
  using assms by (simp add: Max.set_eq_fold del: list.set)

lemma small_fit:
  assumes "- (4 / 3) \<le> y" "y \<le> 4 / 3"
  shows "MinMaxScaler_fit (- 1, 1)
           [[- (4 / 3)], [4 / 9], [- (4 / 9)], [8 / 9], [- (8 / 9)], [10 / 9], [- (10 / 9)],
            [4 / 3], [y]]
         = Inr \<lparr> mm_scale = [3 / 4], mm_min = [0] \<rparr>"
proof -
  have nf: "n_features [[- (4 / 3)], [4 / 9], [- (4 / 9)], [8 / 9], [- (8 / 9)], [10 / 9],
                        [- (10 / 9)], [4 / 3], [y]] = 1"
    by (simp add: n_features_def)
  show ?thesis
    unfolding MinMaxScaler_fit_def nf
    by (simp add: Let_def small_column small_min [OF assms(1)] small_max [OF assms(2)]
        handle_zeros_in_scale_def del: list.set list.set_map)
qed

lemma small_rescale:
  assumes "- (4 / 3) \<le> y" "y \<le> 4 / 3"
  shows "Wine_rescale [[- (4 / 3)], [4 / 9], [- (4 / 9)], [8 / 9], [- (8 / 9)], [10 / 9],
                       [- (10 / 9)], [4 / 3]] [[y]]
         = Inr (\<lparr> mm_scale = [3 / 4], mm_min = [0] \<rparr>, small_train, [[y * 3 / 4]])"
  unfolding Wine_rescale_def Let_def
  by (simp add: small_fit [OF assms, simplified] small_train_def MinMaxScaler_transform_def)

lemma small_samples:
  assumes "- 6 \<le> x" "x \<le> 6"
  shows "Wine_samples (example_library (small_data x)) g 1 1 = (Inr (small_locals x), g)"
proof -
  have lw: "load_wine (example_library (small_data x)) = (fst (small_data x), snd (small_data x))"
    by (simp add: example_library_def)
  have b: "- (4 / 3) \<le> x * 2 / 9" "x * 2 / 9 \<le> 4 / 3"
    using assms by simp_all
  show ?thesis
    unfolding Wine_samples_def lw
    by (simp add: case_prod_beta small_split small_standardize small_reduce
        small_rescale [OF b] small_locals_def)
qed

lemma small_Wine:
  assumes "- 6 \<le> x" "x \<le> 6"
  shows "Wine (example_library (small_data x)) g 1 1 1 = (Inr small_result, g)"
  unfolding Wine_Inr
  by (rule exI [of _ "small_locals x"])
     (simp add: small_samples [OF assms] small_locals_def small_result_def small_train_def
        mask_rows_def py_slice_def py_index_def)

lemma small_Wine_2:
  assumes "- 6 \<le> x" "x \<le> 6"
  shows "Wine (example_library (small_data x)) g 2 1 1 = (Inr small_result_2, g)"
  unfolding Wine_Inr
  by (rule exI [of _ "small_locals x"])
     (simp add: small_samples [OF assms] small_locals_def small_result_2_def small_train_def
        mask_rows_def py_slice_def py_index_def)

lemma count_list_replicate: "count_list (replicate m a) b = (if a = b then m else 0)"
  by (induction m) auto

lemma mset_rotate_eq: "mset (rotate k xs) = mset xs"
proof -
  have "mset (drop (k mod length xs) xs) + mset (take (k mod length xs) xs) = mset xs"
    by (metis add.commute append_take_drop_id mset_append)
  then show ?thesis
    by (simp add: rotate_drop_take)
qed

lemma example_permutation_ok: "permutation_ok (example_library ds) seed m"
  unfolding permutation_ok_def by (simp add: example_library_def mset_rotate_eq del: mset_upt)

lemma example_PCA_shape: "PCA_shape (example_library ds)"
  by (auto simp: PCA_shape_def example_library_def example_pca_def split: if_splits)

lemma example_PCA_succeeds:
  assumes "0 \<le> n" "n \<le> int (min m d)" "0 < m"
  shows "PCA_succeeds (example_library ds) n m d"
  unfolding PCA_succeeds_def
proof (intro allI impI)
  fix X :: matrix
  assume X: "length X = m \<and> rect X d"
  then have "X \<noteq> []" using assms(3) by auto
  then have "n_features X = d" using X by (simp add: n_features_rect)
  then show "\<exists>pca. PCA_fit (example_library ds) n X = Inr pca"
    using assms X by (simp add: example_library_def example_pca_def)
qed

lemma Wine_partitions_disjoint:
  assumes "Wine lib g t s n = (Inr r, g')" "distinct (sample_train r)"
  shows "set (rows_of (training_input r)) \<inter> set (rows_of (test_input r)) = {}"
  using Wine_rows_mset [OF assms(1)] assms(2) by (rule mset_disjoint_sets)

lemma wine_shaped_facts:
  "load_wine (example_library wine_shaped_data) = (fst wine_shaped_data, snd wine_shaped_data)"
  "length (snd wine_shaped_data) = length (fst wine_shaped_data)"
  "length (fst wine_shaped_data) = 178"
  "rect (fst wine_shaped_data) 13"
  "count_list (snd wine_shaped_data) 0 = 59"
  "count_list (snd wine_shaped_data) 1 = 71"
  "count_list (snd wine_shaped_data) 2 = 48"
  by (auto simp: example_library_def wine_shaped_data_def rect_def count_list_replicate)

section \<open>Sizes of the partitions\<close>

lemma Wine_samples_test_size:
  assumes "Wine_samples lib g s n = (Inr L, g')"
  shows "0 < s"
proof -
  from assms obtain data target tr te ltr lte where
    "train_test_split lib g data target s (Some 7) = (Inr (tr, te, ltr, lte), g')"
    by (rule Wine_samples_Inr)
  then show ?thesis by (rule train_test_split_Inr(2))
qed

lemma Wine_sizes_exact:
  assumes "Wine lib g t s n = (Inr r, g')" "Wine_samples lib g s n = (Inr L, g')" "0 \<le> t"
    "\<forall>k\<in>{0, 1, 2}. nat t + nat s \<le> count_list (l_label_train L) k"
  shows "sizes_of (training_input r) = [(''A'', nat t), (''B'', nat t), (''C'', nat t)]"
    and "sizes_of (test_input r) = [(''A'', nat s), (''B'', nat s), (''C'', nat s)]"
proof -
  have s: "0 \<le> s" using Wine_samples_test_size [OF assms(2)] by simp
  from assms(1,2) have r: "r = \<lparr> sample_train = l_sample_train L,
                training_input =
                  [(''A'', py_slice 0 t (mask_rows (l_sample_train L) (l_label_train L) 0)),
                   (''B'', py_slice 0 t (mask_rows (l_sample_train L) (l_label_train L) 1)),
                   (''C'', py_slice 0 t (mask_rows (l_sample_train L) (l_label_train L) 2))],
                test_input =
                  [(''A'', py_slice t (t + s) (mask_rows (l_sample_train L) (l_label_train L) 0)),
                   (''B'', py_slice t (t + s) (mask_rows (l_sample_train L) (l_label_train L) 1)),
                   (''C'', py_slice t (t + s) (mask_rows (l_sample_train L) (l_label_train L) 2))],
                class_labels = [''A'', ''B'', ''C''] \<rparr>"
    by (auto simp: Wine_Inr)
  note sz = Wine_sizes [OF assms(2,3) s]
  have c: "nat t + nat s \<le> count_list (l_label_train L) 0"
    "nat t + nat s \<le> count_list (l_label_train L) 1"
    "nat t + nat s \<le> count_list (l_label_train L) 2"
    using assms(4) by simp_all
  show "sizes_of (training_input r) = [(''A'', nat t), (''B'', nat t), (''C'', nat t)]"
    using c by (simp add: r sizes_of_def sz)
  show "sizes_of (test_input r) = [(''A'', nat s), (''B'', nat s), (''C'', nat s)]"
    using c by (simp add: r sizes_of_def sz)
qed

lemma length_rows_of: "length (rows_of d) = sum_list (map snd (sizes_of d))"
  by (induction d) (auto simp: rows_of_def sizes_of_def)

lemma count_list_le_length: "count_list xs x \<le> length xs"
  by (induction xs) auto

lemma Wine_concrete_scenario:
  assumes "load_wine lib = (data, target)" "length target = length data" "rect data d"
    "\<forall>k\<in>{0, 1, 2}. 40 \<le> count_list target k" "permutation_ok lib 7 (length data)"
    "PCA_succeeds lib 4 (length data - 10) d" "PCA_shape lib"
  shows "\<exists>r. Wine lib g 20 10 4 = (Inr r, g) \<and>
           sizes_of (training_input r) = [(''A'', 20), (''B'', 20), (''C'', 20)] \<and>
           sizes_of (test_input r) = [(''A'', 10), (''B'', 10), (''C'', 10)] \<and>
           length (rows_of (training_input r)) = 60 \<and> length (rows_of (test_input r)) = 30 \<and>
           (\<forall>v\<in>set (rows_of (training_input r)) \<union> set (rows_of (test_input r)). length v = 4)"
proof -
  have "40 \<le> count_list target 0" using assms(4) by simp
  then have big: "(10::int) < int (length data)"
    using count_list_le_length [of target 0] assms(2) by simp
  have "PCA_succeeds lib 4 (length data - nat 10) d" using assms(6) by simp
  with assms(1,2) big assms(3,5,7)
  obtain L where L: "Wine_samples lib g 10 4 = (Inr L, g)"
    using Wine_samples_total [of lib data target 10 d 4 g] by auto
  then obtain r where r: "Wine lib g 20 10 4 = (Inr r, g)"
    by (auto simp: Wine_Inr)
  from L obtain data' target' tr te ltr lte where
    lw: "load_wine lib = (data', target')" and
    sp: "train_test_split lib g data' target' 10 (Some 7) = (Inr (tr, te, ltr, lte), g)" and
    ltr: "l_label_train L = ltr"
    by (rule Wine_samples_Inr) auto
  have sp': "train_test_split lib g data target 10 (Some 7) = (Inr (tr, te, ltr, lte), g)"
    using lw sp assms(1) by simp
  have cnt: "20 + 10 \<le> count_list (l_label_train L) k" if "k \<in> {0, 1, 2}" for k
  proof -
    have "count_list ltr k + count_list lte k = count_list target k" "length lte = 10"
      using split_permutation(1,2) [OF sp' assms(5)] by simp_all
    moreover have "count_list lte k \<le> length lte" by (rule count_list_le_length)
    moreover have "40 \<le> count_list target k" using assms(4) that by blast
    ultimately show ?thesis by (simp add: ltr)
  qed
  then have cnt': "\<forall>k\<in>{0, 1, 2}. nat 20 + nat 10 \<le> count_list (l_label_train L) k"
    by simp
  have sz: "sizes_of (training_input r) = [(''A'', 20), (''B'', 20), (''C'', 20)]"
    "sizes_of (test_input r) = [(''A'', 10), (''B'', 10), (''C'', 10)]"
    using Wine_sizes_exact [OF r L _ cnt'] by simp_all
  have len: "\<forall>v\<in>set (rows_of (training_input r)) \<union> set (rows_of (test_input r)). length v = 4"
  proof
    fix v assume "v \<in> set (rows_of (training_input r)) \<union> set (rows_of (test_input r))"
    then have "v \<in> set (sample_train r)"
      using Wine_rows_subset [OF r] by auto
    moreover have "sample_train r = l_sample_train L"
      using r L by (auto simp: Wine_Inr)
    ultimately show "length v = 4"
      using Wine_row_length [OF L assms(7)] by simp
  qed
  show ?thesis
    using r sz len by (simp add: length_rows_of)
qed

section \<open>Further facts for the claims\<close>

lemma Wine_samples_independent:
  "fst (Wine_samples lib g1 s n) = fst (Wine_samples lib g2 s n)"
proof -
  obtain data target where d: "load_wine lib = (data, target)"
    by (cases "load_wine lib")
  have "fst (train_test_split lib g1 data target s (Some 7)) =
        fst (train_test_split lib g2 data target s (Some 7))"
    by (rule train_test_split_seeded_result)
  then show ?thesis
    by (simp add: Wine_samples_def d Let_def case_prod_beta split: sum.splits)
qed

lemma Wine_state: "snd (Wine lib g t s n) = g"
  using Wine_samples_state [of lib g s n]
  by (cases "Wine_samples lib g s n") (simp add: Wine_def Let_def split: sum.splits)

lemma Wine_independent: "fst (Wine lib g1 t s n) = fst (Wine lib g2 t s n)"
  using Wine_samples_independent [of lib g1 s n g2]
  by (cases "Wine_samples lib g1 s n"; cases "Wine_samples lib g2 s n")
     (simp add: Wine_def Let_def split: sum.splits)


lemma column_length: "length (column X j) = length X"
  by (simp add: column_def)

lemma Wine_samples_train_part:
  assumes "Wine_samples lib g s n = (Inr L, g')" "load_wine lib = (data, target)"
    "train_test_split lib g data target s (Some 7) = (Inr (tr, te, ltr, lte), g'')"
  shows "\<exists>pca. PCA_fit lib n (StandardScaler_transform (StandardScaler_fit tr) tr) = Inr pca \<and>
           l_sample_train L =
             MinMaxScaler_transform (l_minmax_scale L)
               (map pca (StandardScaler_transform (StandardScaler_fit tr) tr)) \<and>
           l_label_train L = ltr"
proof -
  from assms(1) obtain data' target' tr' te' ltr' lte' pca mm where
    lw: "load_wine lib = (data', target')" and
    sp: "train_test_split lib g data' target' s (Some 7) = (Inr (tr', te', ltr', lte'), g')" and
    pca: "PCA_fit lib n (fst (Wine_standardize tr' te')) = Inr pca" and
    L: "L = \<lparr> l_minmax_scale = mm,
           l_sample_train = MinMaxScaler_transform mm (map pca (fst (Wine_standardize tr' te'))),
           l_sample_test = MinMaxScaler_transform mm (map pca (snd (Wine_standardize tr' te'))),
           l_label_train = ltr', l_label_test = lte' \<rparr>"
    by (rule Wine_samples_Inr)
  have eq: "tr' = tr" "ltr' = ltr"
    using lw sp assms(2,3) by simp_all
  have "PCA_fit lib n (StandardScaler_transform (StandardScaler_fit tr) tr) = Inr pca"
    using pca by (simp add: eq Wine_standardize_def Let_def)
  moreover have "l_sample_train L =
             MinMaxScaler_transform (l_minmax_scale L)
               (map pca (StandardScaler_transform (StandardScaler_fit tr) tr))"
    by (simp add: L eq Wine_standardize_def Let_def)
  moreover have "l_label_train L = ltr"
    by (simp add: L eq)
  ultimately show ?thesis by blast
qed

lemma Wine_held_out_only_via_minmax:
  assumes "load_wine lib = (data, target)" "load_wine lib' = (data', target')"
    "PCA_fit lib' = PCA_fit lib"
    "train_test_split lib g data target s (Some 7) = (Inr (tr, te, ltr, lte), g)"
    "train_test_split lib' g data' target' s (Some 7) = (Inr (tr, te', ltr, lte'), g)"
    "Wine_samples lib g s n = (Inr L, g)" "Wine_samples lib' g s n = (Inr L', g)"
    "l_minmax_scale L' = l_minmax_scale L"
  shows "fst (Wine lib' g t s n) = fst (Wine lib g t s n)"
proof -
  from Wine_samples_train_part [OF assms(6,1,4)] obtain pca where
    p: "PCA_fit lib n (StandardScaler_transform (StandardScaler_fit tr) tr) = Inr pca" and
    st: "l_sample_train L = MinMaxScaler_transform (l_minmax_scale L)
           (map pca (StandardScaler_transform (StandardScaler_fit tr) tr))" and
    lt: "l_label_train L = ltr"
    by blast
  from Wine_samples_train_part [OF assms(7,2,5)] obtain pca' where
    p': "PCA_fit lib' n (StandardScaler_transform (StandardScaler_fit tr) tr) = Inr pca'" and
    st': "l_sample_train L' = MinMaxScaler_transform (l_minmax_scale L')
           (map pca' (StandardScaler_transform (StandardScaler_fit tr) tr))" and
    lt': "l_label_train L' = ltr"
    by blast
  have "pca' = pca" using p p' assms(3) by simp
  then have "l_sample_train L' = l_sample_train L" "l_label_train L' = l_label_train L"
    using st st' lt lt' assms(8) by simp_all
  then show ?thesis
    using assms(6,7) by (simp add: Wine_def Let_def)
qed

lemma initial_params_feature_map:
  "initial_params seed ''feature_map'' = Some [''name'' \<mapsto> PNone]"
  by (simp add: initial_params_def)

lemma example_reports_accuracy: "reports_accuracy (example_library ds)"
  unfolding reports_accuracy_def
  by (intro allI exI [of _ "[''testing_accuracy'' \<mapsto> PFloat (1 / 2)]"] exI [of _ "1 / 2"])
     (simp add: example_library_def)

lemma wine_shaped_prepare:
  "\<exists>r. prepare_dataset (example_library wine_shaped_data) g 10598 20 10 4 = (Inr r, 10598)"
proof -
  have c: "\<forall>k\<in>{0, 1, 2}. 40 \<le> count_list (snd wine_shaped_data) k"
    using wine_shaped_facts(5,6,7) by simp
  have p: "PCA_succeeds (example_library wine_shaped_data) 4 (length (fst wine_shaped_data) - 10) 13"
    by (rule example_PCA_succeeds) (simp_all add: wine_shaped_facts)
  from Wine_concrete_scenario [OF wine_shaped_facts(1,2,4) c example_permutation_ok p
      example_PCA_shape, of 10598]
  obtain r where "Wine (example_library wine_shaped_data) 10598 20 10 4 = (Inr r, 10598)"
    by blast
  then show ?thesis
    by (simp add: prepare_dataset_def np_random_seed_def example_library_def)
qed



section \<open>The claims\<close>

subsection \<open>C1\<close>

text \<open>
  C1, as stated: every vector of the testing partition comes from the held-out test split.
  This fails. On the small example the testing partition of class A holds the vector
  \<open>[-1/3]\<close>, a row of the training split, while the held-out split is \<open>[[0]]\<close>.
\<close>

theorem Wine_test_partition_not_held_out:
  "Wine (example_library (small_data 0)) 0 1 1 1 = (Inr small_result, 0) \<and>
   Wine_samples (example_library (small_data 0)) 0 1 1 = (Inr (small_locals 0), 0) \<and>
   [- (1 / 3)] \<in> set (rows_of (test_input small_result)) \<and>
   [- (1 / 3)] \<notin> set (l_sample_test (small_locals 0))"
  by (simp add: small_Wine small_samples) (simp add: small_result_def small_locals_def rows_of_def)

text \<open>
  C1, amended: in every successful call of \<open>Wine\<close> each vector of the training partition
  and each vector of the testing partition is a row of the transformed training split of
  the initial train/test split, which is also the returned \<open>sample_train\<close>. The two
  partitions take their rows at different positions: together they use no row of the
  training split more often than it occurs there, so when the rows of the training split
  are pairwise distinct no vector appears in both partitions.
\<close>

theorem Wine_partitions_from_training_split:
  assumes "Wine lib g t s n = (Inr r, g')"
  shows "\<exists>L. Wine_samples lib g s n = (Inr L, g') \<and> sample_train r = l_sample_train L \<and>
           set (rows_of (training_input r)) \<subseteq> set (l_sample_train L) \<and>
           set (rows_of (test_input r)) \<subseteq> set (l_sample_train L) \<and>
           mset (rows_of (training_input r)) + mset (rows_of (test_input r))
             \<subseteq># mset (l_sample_train L) \<and>
           (distinct (l_sample_train L) \<longrightarrow>
              set (rows_of (training_input r)) \<inter> set (rows_of (test_input r)) = {})"
proof -
  from assms obtain L where L: "Wine_samples lib g s n = (Inr L, g')"
    and st: "sample_train r = l_sample_train L"
    by (auto simp: Wine_Inr)
  show ?thesis
    using L st Wine_rows_subset [OF assms] Wine_rows_mset [OF assms]
      Wine_partitions_disjoint [OF assms]
    by auto
qed

text \<open>The amended C1 on the small example, whose training split has distinct rows.\<close>

theorem Wine_partitions_from_training_split_witness:
  "Wine (example_library (small_data 0)) 0 1 1 1 = (Inr small_result, 0) \<and>
   distinct (sample_train small_result) \<and>
   set (rows_of (training_input small_result)) \<subseteq> set (sample_train small_result) \<and>
   set (rows_of (test_input small_result)) \<subseteq> set (sample_train small_result) \<and>
   set (rows_of (training_input small_result)) \<inter> set (rows_of (test_input small_result)) = {}"
proof -
  have h: "Wine (example_library (small_data 0)) 0 1 1 1 = (Inr small_result, 0)"
    by (simp add: small_Wine)
  have d: "distinct (sample_train small_result)"
    by (simp add: small_result_def small_train_def)
  from Wine_partitions_from_training_split [OF h] d h show ?thesis
    by auto
qed

subsection \<open>C2\<close>

text \<open>
  C2: when the call succeeds and every class has at least \<open>t + s\<close> rows in the training
  split, \<open>Wine\<close> returns exactly \<open>t\<close> training vectors and exactly \<open>s\<close> testing vectors
  per class, at different positions of the training split (so no vector is in both
  partitions when its rows are distinct). In particular, on a base data set with at least
  40 rows in each of the three classes (the wine data has 59, 71 and 48), the call with
  \<open>t = 20\<close>, \<open>s = 10\<close> and \<open>n = 4\<close> succeeds and returns 20 training vectors per class
  (60 in all) and 10 testing vectors per class (30 in all), each of length 4.
\<close>

theorem Wine_partition_sizes:
  "(Wine lib g t s n = (Inr r, g') \<and> Wine_samples lib g s n = (Inr L, g') \<and> 0 \<le> t \<and>
      (\<forall>k\<in>{0, 1, 2}. nat t + nat s \<le> count_list (l_label_train L) k) \<longrightarrow>
      sizes_of (training_input r) = [(''A'', nat t), (''B'', nat t), (''C'', nat t)] \<and>
      sizes_of (test_input r) = [(''A'', nat s), (''B'', nat s), (''C'', nat s)] \<and>
      mset (rows_of (training_input r)) + mset (rows_of (test_input r)) \<subseteq># mset (sample_train r) \<and>
      (distinct (sample_train r) \<longrightarrow>
         set (rows_of (training_input r)) \<inter> set (rows_of (test_input r)) = {}))
   \<and>
   (load_wine lib = (data, target) \<and> length target = length data \<and> rect data d \<and>
      (\<forall>k\<in>{0, 1, 2}. 40 \<le> count_list target k) \<and> permutation_ok lib 7 (length data) \<and>
      PCA_succeeds lib 4 (length data - 10) d \<and> PCA_shape lib \<longrightarrow>
      (\<exists>r. Wine lib g 20 10 4 = (Inr r, g) \<and>
           sizes_of (training_input r) = [(''A'', 20), (''B'', 20), (''C'', 20)] \<and>
           sizes_of (test_input r) = [(''A'', 10), (''B'', 10), (''C'', 10)] \<and>
           length (rows_of (training_input r)) = 60 \<and> length (rows_of (test_input r)) = 30 \<and>
           (\<forall>v\<in>set (rows_of (training_input r)) \<union> set (rows_of (test_input r)). length v = 4)))"
proof (intro conjI impI)
  assume a: "Wine lib g t s n = (Inr r, g') \<and> Wine_samples lib g s n = (Inr L, g') \<and> 0 \<le> t \<and>
      (\<forall>k\<in>{0, 1, 2}. nat t + nat s \<le> count_list (l_label_train L) k)"
  then have w: "Wine lib g t s n = (Inr r, g')" and l: "Wine_samples lib g s n = (Inr L, g')"
    and t: "0 \<le> t" and c: "\<forall>k\<in>{0, 1, 2}. nat t + nat s \<le> count_list (l_label_train L) k"
    by simp_all
  show "sizes_of (training_input r) = [(''A'', nat t), (''B'', nat t), (''C'', nat t)]"
    using w l t c by (rule Wine_sizes_exact(1))
  show "sizes_of (test_input r) = [(''A'', nat s), (''B'', nat s), (''C'', nat s)]"
    using w l t c by (rule Wine_sizes_exact(2))
  show "mset (rows_of (training_input r)) + mset (rows_of (test_input r)) \<subseteq># mset (sample_train r)"
    using w by (rule Wine_rows_mset)
  show "set (rows_of (training_input r)) \<inter> set (rows_of (test_input r)) = {}"
    if "distinct (sample_train r)"
    using w that by (rule Wine_partitions_disjoint)
next
  assume "load_wine lib = (data, target) \<and> length target = length data \<and> rect data d \<and>
      (\<forall>k\<in>{0, 1, 2}. 40 \<le> count_list target k) \<and> permutation_ok lib 7 (length data) \<and>
      PCA_succeeds lib 4 (length data - 10) d \<and> PCA_shape lib"
  then show "\<exists>r. Wine lib g 20 10 4 = (Inr r, g) \<and>
           sizes_of (training_input r) = [(''A'', 20), (''B'', 20), (''C'', 20)] \<and>
           sizes_of (test_input r) = [(''A'', 10), (''B'', 10), (''C'', 10)] \<and>
           length (rows_of (training_input r)) = 60 \<and> length (rows_of (test_input r)) = 30 \<and>
           (\<forall>v\<in>set (rows_of (training_input r)) \<union> set (rows_of (test_input r)). length v = 4)"
    using Wine_concrete_scenario [of lib data target d g] by blast
qed

text \<open>
  C2 on the small example (one training and one testing vector per class), and on a data
  set of the shape of the wine data.
\<close>

theorem Wine_partition_sizes_witness:
  "(Wine (example_library (small_data 0)) 0 1 1 1 = (Inr small_result, 0) \<and>
    Wine_samples (example_library (small_data 0)) 0 1 1 = (Inr (small_locals 0), 0) \<and>
    nat 1 + nat 1 \<le> count_list (l_label_train (small_locals 0)) 0 \<and>
    nat 1 + nat 1 \<le> count_list (l_label_train (small_locals 0)) 1 \<and>
    nat 1 + nat 1 \<le> count_list (l_label_train (small_locals 0)) 2 \<and>
    distinct (sample_train small_result) \<and>
    sizes_of (training_input small_result) = [(''A'', 1), (''B'', 1), (''C'', 1)] \<and>
    sizes_of (test_input small_result) = [(''A'', 1), (''B'', 1), (''C'', 1)] \<and>
    set (rows_of (training_input small_result)) \<inter> set (rows_of (test_input small_result)) = {})
   \<and>
   (length (snd wine_shaped_data) = length (fst wine_shaped_data) \<and>
    rect (fst wine_shaped_data) 13 \<and>
    40 \<le> count_list (snd wine_shaped_data) 0 \<and>
    40 \<le> count_list (snd wine_shaped_data) 1 \<and>
    40 \<le> count_list (snd wine_shaped_data) 2 \<and>
    permutation_ok (example_library wine_shaped_data) 7 (length (fst wine_shaped_data)) \<and>
    PCA_succeeds (example_library wine_shaped_data) 4 (length (fst wine_shaped_data) - 10) 13 \<and>
    PCA_shape (example_library wine_shaped_data) \<and>
    (\<exists>r. Wine (example_library wine_shaped_data) 0 20 10 4 = (Inr r, 0) \<and>
         sizes_of (training_input r) = [(''A'', 20), (''B'', 20), (''C'', 20)] \<and>
         sizes_of (test_input r) = [(''A'', 10), (''B'', 10), (''C'', 10)] \<and>
         length (rows_of (training_input r)) = 60 \<and> length (rows_of (test_input r)) = 30 \<and>
         list_all (\<lambda>v. length v = 4) (rows_of (training_input r) @ rows_of (test_input r))))"
proof -
  have h1: "Wine (example_library (small_data 0)) 0 1 1 1 = (Inr small_result, 0)"
    by (simp add: small_Wine)
  have h2: "Wine_samples (example_library (small_data 0)) 0 1 1 = (Inr (small_locals 0), 0)"
    by (simp add: small_samples)
  have h3: "nat 1 + nat 1 \<le> count_list (l_label_train (small_locals 0)) 0"
    "nat 1 + nat 1 \<le> count_list (l_label_train (small_locals 0)) 1"
    "nat 1 + nat 1 \<le> count_list (l_label_train (small_locals 0)) 2"
    by (simp_all add: small_locals_def)
  have h4: "distinct (sample_train small_result)"
    by (simp add: small_result_def small_train_def)
  have c: "40 \<le> count_list (snd wine_shaped_data) 0" "40 \<le> count_list (snd wine_shaped_data) 1"
    "40 \<le> count_list (snd wine_shaped_data) 2"
    using wine_shaped_facts(5,6,7) by simp_all
  have p: "PCA_succeeds (example_library wine_shaped_data) 4 (length (fst wine_shaped_data) - 10) 13"
    by (rule example_PCA_succeeds) (simp_all add: wine_shaped_facts)
  note first = Wine_partition_sizes
    [where lib = "example_library (small_data 0)" and g = 0 and t = 1 and s = 1 and n = 1
       and r = small_result and g' = 0 and L = "small_locals 0",
     THEN conjunct1, rule_format]
  note second = Wine_partition_sizes
    [where lib = "example_library wine_shaped_data" and g = 0
       and data = "fst wine_shaped_data" and target = "snd wine_shaped_data" and d = 13,
     THEN conjunct2, rule_format]
  have a: "sizes_of (training_input small_result) = [(''A'', 1), (''B'', 1), (''C'', 1)] \<and>
    sizes_of (test_input small_result) = [(''A'', 1), (''B'', 1), (''C'', 1)] \<and>
    set (rows_of (training_input small_result)) \<inter> set (rows_of (test_input small_result)) = {}"
    using first h1 h2 h3 h4 by simp
  have "\<exists>r. Wine (example_library wine_shaped_data) 0 20 10 4 = (Inr r, 0) \<and>
         sizes_of (training_input r) = [(''A'', 20), (''B'', 20), (''C'', 20)] \<and>
         sizes_of (test_input r) = [(''A'', 10), (''B'', 10), (''C'', 10)] \<and>
         length (rows_of (training_input r)) = 60 \<and> length (rows_of (test_input r)) = 30 \<and>
         (\<forall>v\<in>set (rows_of (training_input r)) \<union> set (rows_of (test_input r)). length v = 4)"
    by (rule second) (use wine_shaped_facts(1,2,4) c p example_permutation_ok example_PCA_shape in simp)
  then have b: "\<exists>r. Wine (example_library wine_shaped_data) 0 20 10 4 = (Inr r, 0) \<and>
         sizes_of (training_input r) = [(''A'', 20), (''B'', 20), (''C'', 20)] \<and>
         sizes_of (test_input r) = [(''A'', 10), (''B'', 10), (''C'', 10)] \<and>
         length (rows_of (training_input r)) = 60 \<and> length (rows_of (test_input r)) = 30 \<and>
         list_all (\<lambda>v. length v = 4) (rows_of (training_input r) @ rows_of (test_input r))"
    by (simp add: list_all_iff)
  show ?thesis
    using h1 h2 h3 h4 a b wine_shaped_facts(2,4) c p example_permutation_ok example_PCA_shape
    by blast
qed

subsection \<open>C4\<close>

text \<open>
  C4: two runs of the data set preparation of Example A with the same random seed and the
  same training size, test size and target dimensionality produce the same partitioned
  data set, whatever state the process-wide generator was in before (the library being
  the same functions in both runs).
\<close>

theorem prepare_dataset_deterministic:
  "prepare_dataset lib g1 random_seed t s n = prepare_dataset lib g2 random_seed t s n"
  by (simp add: prepare_dataset_def np_random_seed_def)

subsection \<open>C5\<close>



subsection \<open>C6\<close>

text \<open>
  C6: when the steps before the slicing have succeeded and a class \<open>k\<close> has fewer than
  \<open>t + s\<close> rows in the training split, \<open>Wine\<close> still returns a result, with no error:
  for that class the training partition has \<open>min t c\<close> vectors and the testing partition
  \<open>min s (c - t)\<close>, where \<open>c\<close> is the number of rows of the class, so one of the two is
  smaller than requested.
\<close>

theorem Wine_over_request_truncates:
  assumes "Wine_samples lib g s n = (Inr L, g')" "0 \<le> t" "k < 3"
    "count_list (l_label_train L) k < nat t + nat s"
  shows "\<exists>r. Wine lib g t s n = (Inr r, g') \<and>
           fst (training_input r ! k) = [''A'', ''B'', ''C''] ! k \<and>
           fst (test_input r ! k) = [''A'', ''B'', ''C''] ! k \<and>
           length (snd (training_input r ! k)) = min (nat t) (count_list (l_label_train L) k) \<and>
           length (snd (test_input r ! k)) = min (nat s) (count_list (l_label_train L) k - nat t) \<and>
           (length (snd (training_input r ! k)) < nat t \<or> length (snd (test_input r ! k)) < nat s)"
proof -
  have s: "0 \<le> s" using Wine_samples_test_size [OF assms(1)] by simp
  note sz = Wine_sizes [OF assms(1,2) s]
  obtain r where r: "Wine lib g t s n = (Inr r, g')" and
    tr: "training_input r =
           [(''A'', py_slice 0 t (mask_rows (l_sample_train L) (l_label_train L) 0)),
            (''B'', py_slice 0 t (mask_rows (l_sample_train L) (l_label_train L) 1)),
            (''C'', py_slice 0 t (mask_rows (l_sample_train L) (l_label_train L) 2))]" and
    te: "test_input r =
           [(''A'', py_slice t (t + s) (mask_rows (l_sample_train L) (l_label_train L) 0)),
            (''B'', py_slice t (t + s) (mask_rows (l_sample_train L) (l_label_train L) 1)),
            (''C'', py_slice t (t + s) (mask_rows (l_sample_train L) (l_label_train L) 2))]"
    using assms(1) by (auto simp: Wine_Inr)
  from assms(3) consider "k = 0" | "k = 1" | "k = 2" by linarith
  then have "fst (training_input r ! k) = [''A'', ''B'', ''C''] ! k \<and>
           fst (test_input r ! k) = [''A'', ''B'', ''C''] ! k \<and>
           length (snd (training_input r ! k)) = min (nat t) (count_list (l_label_train L) k) \<and>
           length (snd (test_input r ! k)) = min (nat s) (count_list (l_label_train L) k - nat t)"
    by cases (simp_all add: tr te sz)
  moreover from this assms(4)
  have "length (snd (training_input r ! k)) < nat t \<or> length (snd (test_input r ! k)) < nat s"
    by (auto simp: min_def split: if_splits)
  ultimately show ?thesis using r by blast
qed

text \<open>
  C6 on the small example: class C has two rows in the training split; with \<open>t = 2\<close> and
  \<open>s = 1\<close> its testing partition is empty.
\<close>

theorem Wine_over_request_truncates_witness:
  "Wine_samples (example_library (small_data 0)) 0 1 1 = (Inr (small_locals 0), 0) \<and>
   (0::int) \<le> 2 \<and> (2::nat) < 3 \<and>
   count_list (l_label_train (small_locals 0)) 2 < nat 2 + nat 1 \<and>
   Wine (example_library (small_data 0)) 0 2 1 1 = (Inr small_result_2, 0) \<and>
   length (snd (training_input small_result_2 ! 2)) = 2 \<and>
   length (snd (test_input small_result_2 ! 2)) = 0"
proof -
  have h: "Wine_samples (example_library (small_data 0)) 0 1 1 = (Inr (small_locals 0), 0)"
    by (simp add: small_samples)
  have c: "count_list (l_label_train (small_locals 0)) 2 < nat 2 + nat 1"
    by (simp add: small_locals_def)
  have w: "Wine (example_library (small_data 0)) 0 2 1 1 = (Inr small_result_2, 0)"
    by (simp add: small_Wine_2)
  have "(0::int) \<le> 2" "(2::nat) < 3" by simp_all
  from Wine_over_request_truncates [OF h this c] h c w show ?thesis
    by (simp add: small_result_2_def)
qed

subsection \<open>C8\<close>

text \<open>
  C8: when the data set preparation succeeds and every run of the algorithm returns a
  result with a testing accuracy, Example A calls the algorithm exactly twice, first with
  the feature map RawFeatureVector and then with SecondOrderExpansion, on the same
  classification input and otherwise unchanged parameters, and prints the testing accuracy
  of each result after its run.
\<close>

theorem example_A_runs_algorithm_twice:
  assumes "prepare_dataset lib g 10598 20 10 4 = (Inr r, g1)" "reports_accuracy lib"
  shows "\<exists>res1 a1 g2 res2 a2 g3.
           run_algorithm lib
               ((initial_params 10598)(''feature_map'' \<mapsto> [''name'' \<mapsto> PStr ''RawFeatureVector'']))
               (ClassificationInput (training_input r) (test_input r)) g1 = (Inr res1, g2) \<and>
           res1 ''testing_accuracy'' = Some (PFloat a1) \<and>
           run_algorithm lib
               ((initial_params 10598)(''feature_map'' \<mapsto> [''name'' \<mapsto> PStr ''SecondOrderExpansion'']))
               (ClassificationInput (training_input r) (test_input r)) g2 = (Inr res2, g3) \<and>
           res2 ''testing_accuracy'' = Some (PFloat a2) \<and>
           example_A lib g =
             (Inr (),
              [Call_run_algorithm
                 ((initial_params 10598)(''feature_map'' \<mapsto> [''name'' \<mapsto> PStr ''RawFeatureVector'']))
                 (ClassificationInput (training_input r) (test_input r)),
               Print ''VQC accuracy with RawFeatureVector: '' (PFloat a1),
               Call_run_algorithm
                 ((initial_params 10598)(''feature_map'' \<mapsto> [''name'' \<mapsto> PStr ''SecondOrderExpansion'']))
                 (ClassificationInput (training_input r) (test_input r)),
               Print ''Test accuracy with SecondOrderExpansion: '' (PFloat a2)],
              g3) \<and>
           length (filter is_call (fst (snd (example_A lib g)))) = 2"
proof -
  let ?ci = "ClassificationInput (training_input r) (test_input r)"
  let ?p0 = "initial_params 10598"
  let ?p1 = "?p0(''feature_map'' \<mapsto> [''name'' \<mapsto> PStr ''RawFeatureVector''])"
  let ?p2 = "?p0(''feature_map'' \<mapsto> [''name'' \<mapsto> PStr ''SecondOrderExpansion''])"
  from assms(2) obtain res1 a1 g2 where
    r1: "run_algorithm lib ?p1 ?ci g1 = (Inr res1, g2)" "res1 ''testing_accuracy'' = Some (PFloat a1)"
    unfolding reports_accuracy_def by blast
  from assms(2) obtain res2 a2 g3 where
    r2: "run_algorithm lib ?p2 ?ci g2 = (Inr res2, g3)" "res2 ''testing_accuracy'' = Some (PFloat a2)"
    unfolding reports_accuracy_def by blast
  have c1: "run_cell lib ?p0 ?ci ''RawFeatureVector'' ''VQC accuracy with RawFeatureVector: '' g1 =
              (Inr ?p1, [Call_run_algorithm ?p1 ?ci,
                         Print ''VQC accuracy with RawFeatureVector: '' (PFloat a1)], g2)"
    using r1 by (simp add: run_cell_def set_item_def get_item_def initial_params_feature_map)
  have c2: "run_cell lib ?p1 ?ci ''SecondOrderExpansion''
              ''Test accuracy with SecondOrderExpansion: '' g2 =
              (Inr ?p2, [Call_run_algorithm ?p2 ?ci,
                         Print ''Test accuracy with SecondOrderExpansion: '' (PFloat a2)], g3)"
    using r2 by (simp add: run_cell_def set_item_def get_item_def)
  have ex: "example_A lib g =
             (Inr (), [Call_run_algorithm ?p1 ?ci,
               Print ''VQC accuracy with RawFeatureVector: '' (PFloat a1),
               Call_run_algorithm ?p2 ?ci,
               Print ''Test accuracy with SecondOrderExpansion: '' (PFloat a2)], g3)"
    unfolding example_A_def Let_def assms(1) by (simp add: c1 c2)
  have "length (filter is_call (fst (snd (example_A lib g)))) = 2"
    unfolding ex by (simp add: is_call_def)
  with r1 r2 ex show ?thesis by blast
qed

text \<open>
  C8 on the example library with a data set of the shape of the wine data.
\<close>

theorem example_A_runs_algorithm_twice_witness:
  "reports_accuracy (example_library wine_shaped_data) \<and>
   (\<exists>r. prepare_dataset (example_library wine_shaped_data) 0 10598 20 10 4 = (Inr r, 10598) \<and>
        example_A (example_library wine_shaped_data) 0 =
          (Inr (),
           [Call_run_algorithm
              ((initial_params 10598)(''feature_map'' \<mapsto> [''name'' \<mapsto> PStr ''RawFeatureVector'']))
              (ClassificationInput (training_input r) (test_input r)),
            Print ''VQC accuracy with RawFeatureVector: '' (PFloat (1 / 2)),
            Call_run_algorithm
              ((initial_params 10598)(''feature_map'' \<mapsto> [''name'' \<mapsto> PStr ''SecondOrderExpansion'']))
              (ClassificationInput (training_input r) (test_input r)),
            Print ''Test accuracy with SecondOrderExpansion: '' (PFloat (1 / 2))],
           10600))"
proof -
  let ?lib = "example_library wine_shaped_data"
  obtain r where prep: "prepare_dataset ?lib 0 10598 20 10 4 = (Inr r, 10598)"
    using wine_shaped_prepare [of 0] by blast
  have run: "run_algorithm ?lib p c g = (Inr [''testing_accuracy'' \<mapsto> PFloat (1 / 2)], Suc g)"
    for p c g
    by (simp add: example_library_def)
  from example_A_runs_algorithm_twice [OF prep example_reports_accuracy]
  obtain res1 a1 g2 res2 a2 g3 where
    e: "run_algorithm ?lib
               ((initial_params 10598)(''feature_map'' \<mapsto> [''name'' \<mapsto> PStr ''RawFeatureVector'']))
               (ClassificationInput (training_input r) (test_input r)) 10598 = (Inr res1, g2)"
       "res1 ''testing_accuracy'' = Some (PFloat a1)"
       "run_algorithm ?lib
               ((initial_params 10598)(''feature_map'' \<mapsto> [''name'' \<mapsto> PStr ''SecondOrderExpansion'']))
               (ClassificationInput (training_input r) (test_input r)) g2 = (Inr res2, g3)"
       "res2 ''testing_accuracy'' = Some (PFloat a2)"
       "example_A ?lib 0 =
             (Inr (),
              [Call_run_algorithm
                 ((initial_params 10598)(''feature_map'' \<mapsto> [''name'' \<mapsto> PStr ''RawFeatureVector'']))
                 (ClassificationInput (training_input r) (test_input r)),
               Print ''VQC accuracy with RawFeatureVector: '' (PFloat a1),
               Call_run_algorithm
                 ((initial_params 10598)(''feature_map'' \<mapsto> [''name'' \<mapsto> PStr ''SecondOrderExpansion'']))
                 (ClassificationInput (training_input r) (test_input r)),
               Print ''Test accuracy with SecondOrderExpansion: '' (PFloat a2)],
              g3)"
    by blast
  have "a1 = 1 / 2" "g2 = 10599" using e(1,2) by (auto simp: run)
  moreover have "a2 = 1 / 2" "g3 = Suc g2" using e(3,4) by (auto simp: run)
  ultimately have "a1 = 1 / 2" "a2 = 1 / 2" "g3 = 10600" by simp_all
  with e(5) prep example_reports_accuracy show ?thesis
    by blast
qed

subsection \<open>C9\<close>

text \<open>
  C9: both returned partitions are sliced from the transformed training split: every
  vector of the returned training and testing partitions is a row of the returned
  \<open>sample_train\<close>. The held-out test split reaches the result through the fitted min-max
  scaler only: two calls whose splits agree on the training rows and labels, and whose
  fitted min-max scalers are equal, return the same result whatever their held-out rows.
\<close>

theorem Wine_partitions_sliced_from_sample_train:
  "(Wine lib g t s n = (Inr r, g') \<longrightarrow>
      set (rows_of (training_input r)) \<subseteq> set (sample_train r) \<and>
      set (rows_of (test_input r)) \<subseteq> set (sample_train r))
   \<and>
   (load_wine lib = (data, target) \<and> load_wine lib' = (data', target') \<and>
    PCA_fit lib' = PCA_fit lib \<and>
    train_test_split lib g data target s (Some 7) = (Inr (tr, te, ltr, lte), g) \<and>
    train_test_split lib' g data' target' s (Some 7) = (Inr (tr, te', ltr, lte'), g) \<and>
    Wine_samples lib g s n = (Inr L, g) \<and> Wine_samples lib' g s n = (Inr L', g) \<and>
    l_minmax_scale L' = l_minmax_scale L \<longrightarrow>
      fst (Wine lib' g t s n) = fst (Wine lib g t s n))"
  using Wine_rows_subset [of lib g t s n r g']
    Wine_held_out_only_via_minmax [of lib data target lib' data' target' g s tr te ltr lte te' lte' n L L' t]
  by blast

text \<open>
  C9 on the small example, with held-out row \<open>[0, 3]\<close> in one call and \<open>[1, 3]\<close> in the
  other: the fitted scaler is the same and so is the result.
\<close>

theorem Wine_partitions_sliced_from_sample_train_witness:
  "Wine (example_library (small_data 0)) 0 1 1 1 = (Inr small_result, 0) \<and>
   set (rows_of (test_input small_result)) \<subseteq> set (sample_train small_result) \<and>
   train_test_split (example_library (small_data 0)) 0 (fst (small_data 0)) (snd (small_data 0))
       1 (Some 7)
     = (Inr (small_raw_train, [[0, 3]], [2, 0, 0, 0, 1, 1, 1, 2], [2]), 0) \<and>
   train_test_split (example_library (small_data 1)) 0 (fst (small_data 1)) (snd (small_data 1))
       1 (Some 7)
     = (Inr (small_raw_train, [[1, 3]], [2, 0, 0, 0, 1, 1, 1, 2], [2]), 0) \<and>
   Wine_samples (example_library (small_data 0)) 0 1 1 = (Inr (small_locals 0), 0) \<and>
   Wine_samples (example_library (small_data 1)) 0 1 1 = (Inr (small_locals 1), 0) \<and>
   l_sample_test (small_locals 1) \<noteq> l_sample_test (small_locals 0) \<and>
   l_minmax_scale (small_locals 1) = l_minmax_scale (small_locals 0) \<and>
   fst (Wine (example_library (small_data 1)) 0 1 1 1)
     = fst (Wine (example_library (small_data 0)) 0 1 1 1)"
proof -
  have w: "Wine (example_library (small_data 0)) 0 1 1 1 = (Inr small_result, 0)"
    by (simp add: small_Wine)
  have lw: "load_wine (example_library (small_data 0)) = (fst (small_data 0), snd (small_data 0))"
    "load_wine (example_library (small_data 1)) = (fst (small_data 1), snd (small_data 1))"
    by (simp_all add: example_library_def)
  have pf: "PCA_fit (example_library (small_data 1)) = PCA_fit (example_library (small_data 0))"
    by (simp add: example_library_def)
  have l: "Wine_samples (example_library (small_data 0)) 0 1 1 = (Inr (small_locals 0), 0)"
    "Wine_samples (example_library (small_data 1)) 0 1 1 = (Inr (small_locals 1), 0)"
    by (simp_all add: small_samples)
  have m: "l_sample_test (small_locals 1) \<noteq> l_sample_test (small_locals 0)"
    "l_minmax_scale (small_locals 1) = l_minmax_scale (small_locals 0)"
    by (simp_all add: small_locals_def)
  note inst = Wine_partitions_sliced_from_sample_train
    [where lib = "example_library (small_data 0)" and lib' = "example_library (small_data 1)"
       and g = 0 and t = 1 and s = 1 and n = 1 and r = small_result and g' = 0
       and data = "fst (small_data 0)" and target = "snd (small_data 0)"
       and data' = "fst (small_data 1)" and target' = "snd (small_data 1)"
       and tr = small_raw_train and te = "[[0, 3]]" and te' = "[[1, 3]]"
       and ltr = "[2, 0, 0, 0, 1, 1, 1, 2]" and lte = "[2]" and lte' = "[2]"
       and L = "small_locals 0" and L' = "small_locals 1"]
  have a: "set (rows_of (test_input small_result)) \<subseteq> set (sample_train small_result)"
    using inst w by blast
  have b: "fst (Wine (example_library (small_data 1)) 0 1 1 1)
     = fst (Wine (example_library (small_data 0)) 0 1 1 1)"
    using inst lw pf l m(2) small_split [of "small_data 0" 0 0] small_split [of "small_data 1" 0 1]
    by blast
  show ?thesis
    using w a b l m small_split [of "small_data 0" 0 0] small_split [of "small_data 1" 0 1]
    by blast
qed

subsection \<open>C10\<close>

text \<open>
  C10: the data set returned by \<open>Wine\<close> depends on its three arguments only and not on
  the process-wide random state: the split is seeded with the constant 7 and nothing else
  draws random numbers. Two calls with the same arguments return the same data whatever
  the state of the process-wide generator and whatever seed it was given, and the call
  leaves that state as it found it.
\<close>

theorem Wine_ignores_global_seed:
  "fst (Wine lib g1 t s n) = fst (Wine lib g2 t s n) \<and>
   snd (Wine lib g1 t s n) = g1 \<and>
   fst (prepare_dataset lib g1 seed1 t s n) = fst (prepare_dataset lib g2 seed2 t s n)"
  using Wine_independent [of lib g1 t s n g2] Wine_state [of lib g1 t s n]
    Wine_independent [of lib "np_random_seed lib seed1 g1" t s n "np_random_seed lib seed2 g2"]
  by (simp add: prepare_dataset_def)

end
